theory Spec2Isabelle
  imports Complex_Main "HOL-Library.AList"
begin

section \<open>Similarity Scorer (FileUploadService.levenshteinDistance, calculateSimilarity)\<close>

text \<open>
  JavaScript strings are sequences of code units; \<open>length\<close> and \<open>charAt\<close> work on code
  units.  The scorer only compares code units for equality, so it is modelled over lists of
  any element type.

  \<open>levenshteinDistance(str1, str2)\<close> fills \<open>matrix\<close>, an array of rows.  The model keeps
  the matrix as a list of rows and follows the three loops of the source:
  \<^item> \<open>for i in 0..str2.length: matrix[i] = [i]\<close>, which appends the row \<open>[i]\<close>;
  \<^item> \<open>for j in 0..str1.length: matrix[0][j] = j\<close>
    (\<open>j = 0\<close> overwrites the single element of row 0, every later \<open>j\<close> is the current
    length of the row, and JavaScript extends the array by that element);
  \<^item> the nested loop, where \<open>matrix[i][j] = v\<close> is again a write at the current length of
    row \<open>i\<close> and appends \<open>v\<close>.
  Lemma \<open>levMatrix_shape\<close> below shows that the matrix has \<open>str2.length + 1\<close> rows of
  \<open>str1.length + 1\<close> cells, so that every read of the source is inside the rows.
\<close>

type_synonym matrix = "nat list list"

definition initRows :: "'a list \<Rightarrow> matrix" where
  \<comment> \<open>the first loop; \<open>matrix[i] = [i]\<close> writes at the current length of \<open>matrix\<close>\<close>
  "initRows str2 =
     fold (\<lambda>i m. if i < length m then m[i := [i]] else m @ [[i]]) [0..<Suc (length str2)] []"

definition setCell :: "matrix \<Rightarrow> nat \<Rightarrow> nat \<Rightarrow> nat \<Rightarrow> matrix" where
  \<comment> \<open>\<open>matrix[i][j] = v\<close>: overwrite inside the row, extend the row by \<open>v\<close> at its end\<close>
  "setCell m i j v =
     (if j < length (m ! i) then m[i := (m ! i)[j := v]] else m[i := (m ! i) @ [v]])"

definition initFirstRow :: "'a list \<Rightarrow> matrix \<Rightarrow> matrix" where
  "initFirstRow str1 m = fold (\<lambda>j m. setCell m 0 j j) [0..<Suc (length str1)] m"

definition cellValue :: "'a list \<Rightarrow> 'a list \<Rightarrow> matrix \<Rightarrow> nat \<Rightarrow> nat \<Rightarrow> nat" where
  "cellValue str1 str2 m i j =
     (if str2 ! (i - 1) = str1 ! (j - 1) then m ! (i - 1) ! (j - 1)
      else min (m ! (i - 1) ! (j - 1) + 1) (min (m ! i ! (j - 1) + 1) (m ! (i - 1) ! j + 1)))"

definition fillRow :: "'a list \<Rightarrow> 'a list \<Rightarrow> nat \<Rightarrow> matrix \<Rightarrow> matrix" where
  \<comment> \<open>the inner loop \<open>for j in 1..str1.length\<close>\<close>
  "fillRow str1 str2 i m =
     fold (\<lambda>j m. setCell m i j (cellValue str1 str2 m i j)) [1..<Suc (length str1)] m"

definition levMatrix :: "'a list \<Rightarrow> 'a list \<Rightarrow> matrix" where
  \<comment> \<open>the matrix after the outer loop \<open>for i in 1..str2.length\<close>\<close>
  "levMatrix str1 str2 =
     fold (fillRow str1 str2) [1..<Suc (length str2)] (initFirstRow str1 (initRows str2))"

definition levenshteinDistance :: "'a list \<Rightarrow> 'a list \<Rightarrow> nat" where
  "levenshteinDistance str1 str2 = levMatrix str1 str2 ! length str2 ! length str1"

text \<open>
  \<open>calculateSimilarity\<close> divides two JavaScript numbers that hold integers.  The model
  computes the quotient exactly, in the rationals; the subtraction is the integer one, so
  that a distance above the length would give a negative score.  The double that the source
  computes is the quotient rounded to the nearest double.  Rounding is monotone and keeps
  0, 1/2 and 1, and two such quotients that differ, for strings of fewer than \<open>2^26\<close> code
  units, differ by more than twice the spacing of the doubles between 0 and 1, so they are
  rounded to different doubles in the same order.  The bounds, the comparison with 0.5 and
  the comparison of two scores therefore come out on the doubles as they do here.
\<close>

definition calculateSimilarity :: "'a list \<Rightarrow> 'a list \<Rightarrow> rat" where
  "calculateSimilarity str1 str2 =
     (let longer = (if length str1 > length str2 then str1 else str2);
          shorter = (if length str1 > length str2 then str2 else str1)
      in if length longer = 0 then 1
         else (let editDistance = levenshteinDistance longer shorter
               in (of_nat (length longer) - of_nat editDistance) / of_nat (length longer)))"

subsection \<open>The edit distance of the specification\<close>

text \<open>
  The specification's edit distance is the minimum number of single-character insertions,
  deletions and substitutions that transform one string into the other.
  \<open>edits xs ys n\<close> says that \<open>xs\<close> can be transformed into \<open>ys\<close> with \<open>n\<close> such operations;
  \<open>editDistance_spec\<close> is the least such \<open>n\<close>.
\<close>

inductive edits :: "'a list \<Rightarrow> 'a list \<Rightarrow> nat \<Rightarrow> bool" where
  edits_Nil: "edits [] [] 0"
| edits_keep: "edits xs ys n \<Longrightarrow> edits (x # xs) (x # ys) n"
| edits_subst: "edits xs ys n \<Longrightarrow> edits (x # xs) (y # ys) (Suc n)"
| edits_delete: "edits xs ys n \<Longrightarrow> edits (x # xs) ys (Suc n)"
| edits_insert: "edits xs ys n \<Longrightarrow> edits xs (y # ys) (Suc n)"

definition editDistance_spec :: "'a list \<Rightarrow> 'a list \<Rightarrow> nat" where
  "editDistance_spec xs ys = (LEAST n. edits xs ys n)"

text \<open>
  The recurrence that the matrix of the source tabulates, read on the reversed prefixes:
  \<open>matrix[i][j] = lev (rev (take i str2)) (rev (take j str1))\<close>.
\<close>

fun lev :: "'a list \<Rightarrow> 'a list \<Rightarrow> nat" where
  "lev [] ys = length ys"
| "lev (x # xs) [] = Suc (length xs)"
| "lev (x # xs) (y # ys) =
     (if x = y then lev xs ys
      else min (lev xs ys + 1) (min (lev (x # xs) ys + 1) (lev xs (y # ys) + 1)))"

definition tableCell :: "'a list \<Rightarrow> 'a list \<Rightarrow> nat \<Rightarrow> nat \<Rightarrow> nat" where
  "tableCell str1 str2 i j = lev (rev (take i str2)) (rev (take j str1))"

text \<open>
  The matrix while the nested loop runs: rows below \<open>r\<close> are complete, row \<open>r\<close> is filled up
  to column \<open>c\<close>, the rows above still hold their first cell only.
\<close>

definition partialMatrix :: "'a list \<Rightarrow> 'a list \<Rightarrow> nat \<Rightarrow> nat \<Rightarrow> matrix" where
  "partialMatrix str1 str2 r c =
     map (\<lambda>i. if i < r then map (tableCell str1 str2 i) [0..<Suc (length str1)]
              else if i = r then map (tableCell str1 str2 r) [0..<Suc c]
              else [i]) [0..<Suc (length str2)]"

section \<open>Data model\<close>

text \<open>
  Header and field names are modelled as \<^typ>\<open>string\<close>: sequences of 8-bit code units
  (the Latin-1 range of JavaScript's code units).  \<open>toLowerCase\<close> maps \<open>A\<close>..\<open>Z\<close> and the
  Latin-1 capitals \<open>0xC0\<close>..\<open>0xDE\<close> (without the multiplication sign \<open>0xD7\<close>) to their small
  letters; the class \<open>\s\<close> of the regular expression holds, in this range, the code units
  9 to 13, 32 and 160.
\<close>

datatype ImportType = CAMPAIGNS | AUDIENCES | KEYWORDS | CREATIVES | BUDGETS

definition toLowerChar :: "char \<Rightarrow> char" where
  "toLowerChar c =
     (let n = (of_char c :: nat)
      in if (65 \<le> n \<and> n \<le> 90) \<or> (192 \<le> n \<and> n \<le> 222 \<and> n \<noteq> 215)
         then char_of (n + 32) else c)"

definition toLowerCase :: "string \<Rightarrow> string" where
  "toLowerCase s = map toLowerChar s"

definition isUnderscoreOrSpace :: "char \<Rightarrow> bool" where
  \<comment> \<open>the character class \<open>[_\s]\<close>\<close>
  "isUnderscoreOrSpace c =
     (let n = (of_char c :: nat) in n = 95 \<or> (9 \<le> n \<and> n \<le> 13) \<or> n = 32 \<or> n = 160)"

definition normalizeHeader :: "string \<Rightarrow> string" where
  \<comment> \<open>\<open>s.toLowerCase().replace(/[_\s]+/g, '')\<close>\<close>
  "normalizeHeader s = filter (\<lambda>c. \<not> isUnderscoreOrSpace c) (toLowerCase s)"

fun str_includes :: "'a list \<Rightarrow> 'a list \<Rightarrow> bool" where
  \<comment> \<open>\<open>s.includes(f)\<close> on strings: \<open>f\<close> occurs in \<open>s\<close> as a contiguous substring\<close>
  "str_includes [] f = (f = [])"
| "str_includes (c # s) f = (take (length f) (c # s) = f \<or> str_includes s f)"

text \<open>
  A JavaScript number is a double: not-a-number, an infinity, or a finite value, which is
  a rational number.  The code only compares cell numbers with the integer bounds of a
  range, so finite values are modelled by \<^typ>\<open>rat\<close>.
\<close>

datatype jsnumber = NaN | NegInfinity | PosInfinity | Finite rat

fun js_less :: "jsnumber \<Rightarrow> jsnumber \<Rightarrow> bool" where
  \<comment> \<open>the operator \<open><\<close> on numbers: false as soon as one side is \<open>NaN\<close>\<close>
  "js_less NaN _ = False"
| "js_less _ NaN = False"
| "js_less _ NegInfinity = False"
| "js_less NegInfinity _ = True"
| "js_less PosInfinity _ = False"
| "js_less (Finite a) PosInfinity = True"
| "js_less (Finite a) (Finite b) = (a < b)"

text \<open>
  A cell is typed \<open>any\<close>.  The validator looks at a cell through strict equality with
  \<open>null\<close>, \<open>undefined\<close> and \<open>''\<close>, through \<open>typeof\<close>, and through the conversions
  \<open>Number(value)\<close> and \<open>Date.parse(value)\<close>.  A value that is none of \<open>null\<close>,
  \<open>undefined\<close>, a boolean, a number or a string (an array, an object of a JSON file, a
  \<open>Date\<close>) is never strictly equal to \<open>null\<close>, \<open>undefined\<close> or \<open>''\<close>, its \<open>typeof\<close> is
  neither \<open>'number'\<close> nor \<open>'string'\<close>, and it is truthy; it is modelled by what the two
  conversions do with it: they throw a \<open>TypeError\<close> when the object cannot be converted to
  a primitive (the JSON object \<open>{"valueOf": 0, "toString": 0}\<close>, whose two conversion
  methods are not callable), they yield \<open>NaN\<close> (\<open>{}\<close>), or they yield a number (\<open>[5]\<close>
  under \<open>Number\<close>).
\<close>

datatype conversion = Throws | GivesNaN | GivesNumber

datatype jsvalue =
    JSNull
  | JSUndefined
  | JSBoolean bool
  | JSNumber jsnumber
  | JSString string
  | JSObject conversion conversion  \<comment> \<open>outcome of \<open>Number(value)\<close>, outcome of \<open>Date.parse(value)\<close>\<close>

datatype exn = TypeError

text \<open>
  What \<open>Number\<close> makes of a string and what \<open>Date.parse\<close> makes of a primitive is the
  host's business (\<open>Date.parse\<close> is implementation-defined outside the ISO format), so both
  are parameters of the model.  On primitives neither conversion throws.
\<close>

record host =
  numberIsNaN :: "string \<Rightarrow> bool"  \<comment> \<open>\<open>isNaN(Number(s))\<close> for a string \<open>s\<close>\<close>
  dateParseIsNaN :: "jsvalue \<Rightarrow> bool"  \<comment> \<open>\<open>isNaN(Date.parse(v))\<close> for a primitive \<open>v\<close>\<close>

text \<open>
  The concrete evaluations below need a host.  They consult it for one conversion only,
  \<open>Number('abc')\<close>, which is \<open>NaN\<close> on every host; \<open>stubHost\<close> answers \<open>NaN\<close> throughout.
\<close>

definition stubHost :: host where
  "stubHost = \<lparr>numberIsNaN = (\<lambda>s. True), dateParseIsNaN = (\<lambda>v. True)\<rparr>"

fun applyConversion :: "conversion \<Rightarrow> exn + bool" where
  \<comment> \<open>\<open>isNaN\<close> of the converted object, or the exception of the conversion\<close>
  "applyConversion Throws = Inl TypeError"
| "applyConversion GivesNaN = Inr True"
| "applyConversion GivesNumber = Inr False"

fun isNaN_Number :: "host \<Rightarrow> jsvalue \<Rightarrow> exn + bool" where
  \<comment> \<open>\<open>isNaN(Number(value))\<close>\<close>
  "isNaN_Number h JSNull = Inr False"
| "isNaN_Number h JSUndefined = Inr True"
| "isNaN_Number h (JSBoolean b) = Inr False"
| "isNaN_Number h (JSNumber n) = Inr (n = NaN)"
| "isNaN_Number h (JSString s) = Inr (numberIsNaN h s)"
| "isNaN_Number h (JSObject c d) = applyConversion c"

fun isNaN_DateParse :: "host \<Rightarrow> jsvalue \<Rightarrow> exn + bool" where
  \<comment> \<open>\<open>isNaN(Date.parse(value))\<close>\<close>
  "isNaN_DateParse h (JSObject c d) = applyConversion d"
| "isNaN_DateParse h v = Inr (dateParseIsNaN h v)"

fun truthy :: "jsvalue \<Rightarrow> bool" where
  "truthy JSNull = False"
| "truthy JSUndefined = False"
| "truthy (JSBoolean b) = b"
| "truthy (JSNumber n) = (n \<noteq> NaN \<and> n \<noteq> Finite 0)"
| "truthy (JSString s) = (s \<noteq> [])"
| "truthy (JSObject c d) = True"

text \<open>
  \<open>FileData\<close>; its field \<open>preview\<close> is not read by the functions modelled here.
  \<open>totalRows\<close> is a field of its own, which the parsers set to \<open>rows.length\<close>.
\<close>

record FileData =
  headers :: "string list"
  rows :: "jsvalue list list"
  totalRows :: int

datatype errorKind = RequiredKind | TypeKind | FormatKind | RangeKind | DuplicateKind

text \<open>The message templates of the validator, with their parameters.\<close>

datatype message =
    MissingRequiredColumn string  \<comment> \<open>\<open>`Missing required column: ${field}`\<close>\<close>
  | RequiredFieldIsEmpty  \<comment> \<open>\<open>`Required field is empty`\<close>\<close>
  | InvalidTypeExpected string  \<comment> \<open>\<open>`Invalid type. Expected ${expectedType}`\<close>\<close>
  | ValueOutsideExpectedRange rat rat
      \<comment> \<open>\<open>`Value outside expected range (${range.min}-${range.max})`\<close>\<close>

record ValidationError =
  err_row :: nat
  err_column :: string
  err_value :: jsvalue
  err_message :: message
  err_type :: errorKind

record ValidationWarning =
  warn_row :: nat
  warn_column :: string
  warn_value :: jsvalue
  warn_message :: message

record ValidationSummary =
  summary_totalRows :: int
  validRows :: int
  invalidRows :: int
  errorCount :: int
  warningCount :: int

record ValidationResult =
  isValid :: bool
  errors :: "ValidationError list"
  warnings :: "ValidationWarning list"
  summary :: ValidationSummary

record fieldRange =
  range_min :: rat
  range_max :: rat

section \<open>Static configuration\<close>

fun getRequiredFields :: "ImportType \<Rightarrow> string list" where
  "getRequiredFields CAMPAIGNS = [''name'', ''platform'', ''objective'', ''budget'']"
| "getRequiredFields AUDIENCES = [''name'', ''type'', ''size'']"
| "getRequiredFields KEYWORDS = [''keyword'', ''match_type'']"
| "getRequiredFields CREATIVES = [''name'', ''type'', ''headline'']"
| "getRequiredFields BUDGETS = [''campaign_id'', ''amount'', ''type'']"

fun getTargetFields :: "ImportType \<Rightarrow> string list" where
  "getTargetFields CAMPAIGNS =
     [''name'', ''platform'', ''objective'', ''status'', ''budget'', ''budget_type'',
      ''start_date'', ''end_date'']"
| "getTargetFields AUDIENCES = [''name'', ''type'', ''size'', ''description'']"
| "getTargetFields KEYWORDS = [''keyword'', ''match_type'', ''bid'', ''status'']"
| "getTargetFields CREATIVES =
     [''name'', ''type'', ''headline'', ''description'', ''call_to_action'']"
| "getTargetFields BUDGETS = [''campaign_id'', ''amount'', ''type'', ''currency'']"

definition isRequiredField :: "string \<Rightarrow> ImportType \<Rightarrow> bool" where
  "isRequiredField field importType = List.member (getRequiredFields importType) field"

definition getFieldType :: "string \<Rightarrow> ImportType \<Rightarrow> string" where
  "getFieldType field importType =
     (let numericFields = [''budget'', ''amount'', ''bid'', ''size''];
          dateFields = [''start_date'', ''end_date'', ''created_at'', ''updated_at'']
      in if list_ex (\<lambda>f. str_includes (toLowerCase field) f) numericFields then ''number''
         else if list_ex (\<lambda>f. str_includes (toLowerCase field) f) dateFields then ''date''
         else ''string'')"

definition getFieldRange :: "string \<Rightarrow> ImportType \<Rightarrow> fieldRange option" where
  "getFieldRange field importType =
     (if str_includes (toLowerCase field) ''budget''
         \<or> str_includes (toLowerCase field) ''amount''
      then Some \<lparr>range_min = 0, range_max = 1000000\<rparr>
      else if str_includes (toLowerCase field) ''bid''
      then Some \<lparr>range_min = 0, range_max = 100\<rparr>
      else None)"

section \<open>Row Validator (validateType, validateRow, performValidation)\<close>

definition validateType :: "host \<Rightarrow> jsvalue \<Rightarrow> string \<Rightarrow> exn + bool" where
  "validateType h v expectedType =
     (if expectedType = ''number'' then
        (case v of JSNumber n \<Rightarrow> Inr True
         | _ \<Rightarrow> (case isNaN_Number h v of Inl e \<Rightarrow> Inl e | Inr nan \<Rightarrow> Inr (\<not> nan)))
      else if expectedType = ''date'' then
        (case isNaN_DateParse h v of Inl e \<Rightarrow> Inl e | Inr nan \<Rightarrow> Inr (\<not> nan))
      else if expectedType = ''string'' then
        (case v of JSString s \<Rightarrow> Inr True | _ \<Rightarrow> Inr False)
      else Inr True)"

definition cellAt :: "jsvalue list \<Rightarrow> nat \<Rightarrow> jsvalue" where
  \<comment> \<open>\<open>row[colIndex]\<close>: \<open>undefined\<close> beyond the end of the row\<close>
  "cellAt row colIndex = (if colIndex < length row then row ! colIndex else JSUndefined)"

definition isEmptyCell :: "jsvalue \<Rightarrow> bool" where
  \<comment> \<open>\<open>value === null || value === undefined || value === ''\<close>\<close>
  "isEmptyCell v = (v = JSNull \<or> v = JSUndefined \<or> v = JSString [])"

text \<open>
  The arrays \<open>errors\<close> and \<open>warnings\<close> are shared and appended to; the model passes the pair
  of them through every step.  An exception leaves the loops at once: \<open>foldE\<close> is the
  \<open>forEach\<close> that stops at the first \<open>Inl\<close>.
\<close>

type_synonym report = "ValidationError list \<times> ValidationWarning list"

fun foldE :: "('a \<Rightarrow> 's \<Rightarrow> 'e + 's) \<Rightarrow> 'a list \<Rightarrow> 's \<Rightarrow> 'e + 's" where
  "foldE f [] s = Inr s"
| "foldE f (x # xs) s = (case f x s of Inl e \<Rightarrow> Inl e | Inr s' \<Rightarrow> foldE f xs s')"

definition validateColumn ::
  "host \<Rightarrow> jsvalue list \<Rightarrow> ImportType \<Rightarrow> nat \<Rightarrow> string \<times> nat \<Rightarrow> report \<Rightarrow> exn + report" where
  \<comment> \<open>the callback of \<open>headers.forEach((header, colIndex) => ...)\<close> in \<open>validateRow\<close>\<close>
  "validateColumn h row importType rowNumber hc st =
     (let header = fst hc; colIndex = snd hc;
          v = cellAt row colIndex;
          errors1 =
            (if isRequiredField header importType \<and> isEmptyCell v
             then fst st @ [\<lparr>err_row = rowNumber, err_column = header, err_value = v,
                             err_message = RequiredFieldIsEmpty, err_type = RequiredKind\<rparr>]
             else fst st);
          expectedType = getFieldType header importType
      in case (if \<not> isEmptyCell v then validateType h v expectedType else Inr True) of
           Inl e \<Rightarrow> Inl e
         | Inr ok \<Rightarrow>
             (let errors2 =
                    (if ok then errors1
                     else errors1 @ [\<lparr>err_row = rowNumber, err_column = header, err_value = v,
                                      err_message = InvalidTypeExpected expectedType,
                                      err_type = TypeKind\<rparr>]);
                  warnings1 =
                    (case v of
                       JSNumber n \<Rightarrow>
                         (if expectedType = ''number'' then
                            (case getFieldRange header importType of
                               Some rng \<Rightarrow>
                                 (if js_less n (Finite (range_min rng))
                                     \<or> js_less (Finite (range_max rng)) n
                                  then snd st @ [\<lparr>warn_row = rowNumber, warn_column = header,
                                                  warn_value = v,
                                                  warn_message = ValueOutsideExpectedRange
                                                    (range_min rng) (range_max rng)\<rparr>]
                                  else snd st)
                             | None \<Rightarrow> snd st)
                          else snd st)
                     | _ \<Rightarrow> snd st)
              in Inr (errors2, warnings1)))"

definition validateRow ::
  "host \<Rightarrow> jsvalue list \<Rightarrow> string list \<Rightarrow> ImportType \<Rightarrow> nat \<Rightarrow> report \<Rightarrow> exn + report" where
  "validateRow h row hdrs importType rowNumber st =
     foldE (validateColumn h row importType rowNumber) (zip hdrs [0..<length hdrs]) st"

definition missingColumns :: "FileData \<Rightarrow> ImportType \<Rightarrow> ValidationError list" where
  \<comment> \<open>\<open>requiredFields.forEach\<close>: one row-0 error for every required field not among the headers\<close>
  "missingColumns data importType =
     fold (\<lambda>field errs.
             if \<not> List.member (headers data) field
             then errs @ [\<lparr>err_row = 0, err_column = field, err_value = JSNull,
                           err_message = MissingRequiredColumn field, err_type = RequiredKind\<rparr>]
             else errs)
          (getRequiredFields importType) []"

definition requiredErrors :: "ValidationError list \<Rightarrow> ValidationError list" where
  \<comment> \<open>\<open>errors.filter((e) => e.type === 'required')\<close>\<close>
  "requiredErrors errs = filter (\<lambda>e. err_type e = RequiredKind) errs"

definition performValidation :: "host \<Rightarrow> FileData \<Rightarrow> ImportType \<Rightarrow> exn + ValidationResult" where
  "performValidation h data importType =
     (case foldE (\<lambda>ri st. validateRow h (fst ri) (headers data) importType (snd ri + 1) st)
                 (zip (rows data) [0..<length (rows data)])
                 (missingColumns data importType, [])
      of Inl e \<Rightarrow> Inl e
       | Inr st \<Rightarrow>
           Inr \<lparr>isValid = (length (fst st) = 0),
                errors = fst st,
                warnings = snd st,
                summary =
                  \<lparr>summary_totalRows = totalRows data,
                   validRows = totalRows data - int (length (requiredErrors (fst st))),
                   invalidRows = int (length (requiredErrors (fst st))),
                   errorCount = int (length (fst st)),
                   warningCount = int (length (snd st))\<rparr>\<rparr>)"

section \<open>Field Mapper (generateFieldMapping)\<close>

text \<open>
  A \<open>FieldMapping\<close> is an object used as a dictionary from source header to target field.
  It is modelled by the association list of its own properties.  The mapper only writes it:
  \<open>mapping[header] = t\<close> is \<^const>\<open>AList.update\<close>.  The one key for which such an assignment
  would not create a property of the object is \<open>__proto__\<close>, and the mapper never writes it
  (lemma \<open>proto_never_mapped\<close>).
\<close>

type_synonym FieldMapping = "(string \<times> string) list"

definition bestMatchStep :: "string \<Rightarrow> string \<Rightarrow> string \<times> rat \<Rightarrow> string \<times> rat" where
  \<comment> \<open>the callback of \<open>targetFields.forEach\<close>; the state is \<open>(bestMatch, bestScore)\<close>\<close>
  "bestMatchStep normalized target best =
     (let targetNormalized = normalizeHeader target;
          score = calculateSimilarity normalized targetNormalized
      in if score > snd best then (target, score) else best)"

definition findBestMatch :: "string \<Rightarrow> ImportType \<Rightarrow> string \<times> rat" where
  "findBestMatch header importType =
     fold (bestMatchStep (normalizeHeader header)) (getTargetFields importType) ([], 0)"

definition generateFieldMapping :: "string list \<Rightarrow> ImportType \<Rightarrow> FieldMapping" where
  "generateFieldMapping hdrs importType =
     fold (\<lambda>header mapping.
             (let best = findBestMatch header importType
              in if snd best > 1 / 2 then AList.update header (fst best) mapping else mapping))
          hdrs []"

definition bestSimilarity :: "string \<Rightarrow> ImportType \<Rightarrow> rat" where
  \<comment> \<open>the specification's best score of a header: the greatest similarity to a target field\<close>
  "bestSimilarity header importType =
     Max ((\<lambda>target. calculateSimilarity (normalizeHeader header) (normalizeHeader target))
            ` set (getTargetFields importType))"

section \<open>Import Orchestrator (mapRowData, performImport)\<close>

text \<open>
  \<open>importRecord\<close> posts the mapped record to the server and returns \<open>response.data.id\<close>.
  The server is outside the repository, so the call is a parameter of the model: from the
  state of the world, the import kind and the mapped record it gives the outcome, either
  the thrown value or the returned record id, and the next state of the world.  The
  returned id is whatever the response holds, hence a \<^typ>\<open>jsvalue\<close>.  The progress
  callback is a parameter in the same way; it may throw as well.
\<close>

datatype thrown = ErrorObject string | OtherValue
  \<comment> \<open>an \<open>Error\<close> with its message, or any other thrown value\<close>

type_synonym mappedData = "(string \<times> jsvalue) list"

type_synonym 'w importRecord = "'w \<Rightarrow> ImportType \<Rightarrow> mappedData \<Rightarrow> (thrown + jsvalue) \<times> 'w"

type_synonym 'w onProgress = "'w \<Rightarrow> rat \<Rightarrow> thrown option \<times> 'w"

record ImportError =
  ie_row :: nat
  ie_data :: "jsvalue list"
  ie_error :: string

record ImportResult =
  success :: bool
  imported :: nat
  failed :: nat
  skipped :: nat
  import_errors :: "ImportError list"
  createdRecords :: "jsvalue list"
  updatedRecords :: "jsvalue list"

text \<open>The calls made to the two collaborators, in order, each with what it answered.\<close>

datatype call =
    SubmitCall nat ImportType mappedData "thrown + jsvalue"
      \<comment> \<open>loop index \<open>i\<close>, the two arguments, outcome\<close>
  | ProgressCall rat "thrown option"

record 'w importState =
  result :: ImportResult
  world :: 'w
  calls :: "call list"

text \<open>
  \<open>mapRowData\<close> reads \<open>mapping[header]\<close> and, when the value is truthy, assigns
  \<open>mappedData[targetField] = row[index]\<close>.  Both are property accesses of plain objects,
  whose prototype is \<open>Object.prototype\<close>:
  \<^item> The read finds the own property of the mapping, a string, which is truthy unless it is
    empty.  Without an own property it finds what \<open>Object.prototype\<close> holds under that name
    (\<open>constructor\<close>, \<open>toString\<close>, \<open>__proto__\<close>, ...): a function or an object, which is truthy,
    and which the assignment converts to a string to get the property key.  That string is
    the host's: \<open>inherited name\<close> is a parameter of the model, the key that the member of
    \<open>Object.prototype\<close> called \<open>name\<close> is converted to, for the names that it holds.
  \<^item> The assignment creates or overwrites an own property of \<open>mappedData\<close>, except under
    the key \<open>__proto__\<close>, which \<open>mappedData\<close> inherits as an accessor: its setter makes an
    object or \<open>null\<close> the prototype of \<open>mappedData\<close>, ignores every other value, and creates
    no property.  After \<open>null\<close> the accessor is no longer inherited, and a later assignment
    under that key creates an own property.  An object cell that becomes the prototype is
    taken to inherit from \<open>Object.prototype\<close> and to have no property \<open>__proto__\<close> of its
    own, as arrays, dates and the objects of a JSON file without such a key do.
  The mapped record is the list of the own properties of \<open>mappedData\<close>, which is what the
  request sends, in the order of their first assignment; the order in which the host
  enumerates them (keys that are array indices first) is not modelled.
\<close>

definition readMapping :: "(string \<Rightarrow> string option) \<Rightarrow> FieldMapping \<Rightarrow> string \<Rightarrow> string option" where
  \<comment> \<open>the property key that \<open>mapping[header]\<close> stands for when it is truthy\<close>
  "readMapping inherited mapping header =
     (case map_of mapping header of
        Some targetField \<Rightarrow> (if targetField \<noteq> [] then Some targetField else None)
      | None \<Rightarrow> inherited header)"

definition assignProperty :: "mappedData \<times> bool \<Rightarrow> string \<Rightarrow> jsvalue \<Rightarrow> mappedData \<times> bool" where
  \<comment> \<open>\<open>mappedData[key] = v\<close>; the flag says whether the accessor \<open>__proto__\<close> is inherited\<close>
  "assignProperty obj key v =
     (if key = ''__proto__'' \<and> snd obj then (fst obj, v \<noteq> JSNull)
      else (AList.update key v (fst obj), snd obj))"

definition mapRowData ::
  "(string \<Rightarrow> string option) \<Rightarrow> jsvalue list \<Rightarrow> string list \<Rightarrow> FieldMapping \<Rightarrow> mappedData" where
  "mapRowData inherited row hdrs mapping =
     fst (fold (\<lambda>hi mappedData.
                  (case readMapping inherited mapping (fst hi) of
                     Some targetField \<Rightarrow> assignProperty mappedData targetField (cellAt row (snd hi))
                   | None \<Rightarrow> mappedData))
               (zip hdrs [0..<length hdrs]) ([], True))"

text \<open>
  \<open>Object.prototype\<close> as the concrete runs below see it: the members that the language
  defines, native functions written as V8 writes them.
\<close>

definition v8ObjectPrototype :: "string \<Rightarrow> string option" where
  "v8ObjectPrototype name =
     (if name = ''__proto__'' then Some ''[object Object]''
      else if name = ''constructor'' then Some ''function Object() { [native code] }''
      else if List.member
                [''toString'', ''toLocaleString'', ''valueOf'', ''hasOwnProperty'',
                 ''isPrototypeOf'', ''propertyIsEnumerable'', ''__defineGetter__'',
                 ''__defineSetter__'', ''__lookupGetter__'', ''__lookupSetter__''] name
      then Some (''function '' @ name @ ''() { [native code] }'')
      else None)"

definition errorMessage :: "thrown \<Rightarrow> string" where
  \<comment> \<open>\<open>error instanceof Error ? error.message : 'Unknown error'\<close>\<close>
  "errorMessage t = (case t of ErrorObject m \<Rightarrow> m | OtherValue \<Rightarrow> ''Unknown error'')"

definition catchRow :: "FileData \<Rightarrow> nat \<Rightarrow> thrown \<Rightarrow> ImportResult \<Rightarrow> ImportResult" where
  \<comment> \<open>the \<open>catch\<close> block of the loop body\<close>
  "catchRow data i t r =
     r\<lparr>failed := failed r + 1,
       import_errors := import_errors r @
         [\<lparr>ie_row = i + 1, ie_data = rows data ! i, ie_error = errorMessage t\<rparr>]\<rparr>"

text \<open>
  The progress value \<open>((i + 1) / totalRows) * 100\<close> is computed exactly here; the code passes
  the double that the two roundings of the division and the multiplication leave
  (\<open>33.33333333333333\<close> where the model has \<open>100 / 3\<close>).  The number and the order of the calls
  are those of the code.
\<close>

definition importStep ::
  "(string \<Rightarrow> string option) \<Rightarrow> 'w importRecord \<Rightarrow> 'w onProgress option \<Rightarrow> ImportType \<Rightarrow>
   FileData \<Rightarrow> FieldMapping \<Rightarrow> nat \<Rightarrow> nat \<Rightarrow> 'w importState \<Rightarrow> 'w importState" where
  \<comment> \<open>the body of \<open>for (let i = 0; i < totalRows; i++)\<close>, where \<open>i < data.rows.length\<close>\<close>
  "importStep inherited submit progress importType data mapping totalRowCount i st =
     (let row = rows data ! i;
          mapped = mapRowData inherited row (headers data) mapping;
          answer = submit (world st) importType mapped;
          calls1 = calls st @ [SubmitCall i importType mapped (fst answer)]
      in case fst answer of
           Inl t \<Rightarrow>
             \<lparr>result = catchRow data i t (result st), world = snd answer, calls = calls1\<rparr>
         | Inr recordId \<Rightarrow>
             (let result1 =
                    (if truthy recordId
                     then (result st)\<lparr>imported := imported (result st) + 1,
                                      createdRecords := createdRecords (result st) @ [recordId]\<rparr>
                     else result st);
                  p = (of_nat (i + 1) / of_nat totalRowCount) * 100
              in case progress of
                   None \<Rightarrow> \<lparr>result = result1, world = snd answer, calls = calls1\<rparr>
                 | Some callback \<Rightarrow>
                     (let reply = callback (snd answer) p;
                          calls2 = calls1 @ [ProgressCall p (fst reply)]
                      in case fst reply of
                           None \<Rightarrow> \<lparr>result = result1, world = snd reply, calls = calls2\<rparr>
                         | Some t \<Rightarrow>
                             \<lparr>result = catchRow data i t result1, world = snd reply,
                              calls = calls2\<rparr>)))"

definition initialResult :: ImportResult where
  "initialResult =
     \<lparr>success = False, imported = 0, failed = 0, skipped = 0, import_errors = [],
      createdRecords = [], updatedRecords = []\<rparr>"

definition performImport ::
  "(string \<Rightarrow> string option) \<Rightarrow> 'w importRecord \<Rightarrow> 'w onProgress option \<Rightarrow> ImportType \<Rightarrow>
   FileData \<Rightarrow> FieldMapping \<Rightarrow> 'w \<Rightarrow> 'w importState" where
  "performImport inherited submit progress importType data mapping w =
     (let totalRowCount = length (rows data);
          st = fold (importStep inherited submit progress importType data mapping totalRowCount)
                 [0..<totalRowCount] \<lparr>result = initialResult, world = w, calls = []\<rparr>
      in st\<lparr>result := (result st)\<lparr>success := (failed (result st) = 0)\<rparr>\<rparr>)"

text \<open>The state of the loop of \<open>performImport\<close> after its first \<open>n\<close> iterations.\<close>

definition importLoop ::
  "(string \<Rightarrow> string option) \<Rightarrow> 'w importRecord \<Rightarrow> 'w onProgress option \<Rightarrow> ImportType \<Rightarrow>
   FileData \<Rightarrow> FieldMapping \<Rightarrow> 'w \<Rightarrow> nat \<Rightarrow> 'w importState" where
  "importLoop inherited submit progress importType data mapping w n =
     fold (importStep inherited submit progress importType data mapping (length (rows data)))
       [0..<n]
       \<lparr>result = initialResult, world = w, calls = []\<rparr>"

section \<open>Notions used to state the claims\<close>


text \<open>
  The errors that validation has collected, or the exception that ended it: of the state of
  the loops, and of the returned result.
\<close>

fun stateErrors :: "exn + report \<Rightarrow> exn + ValidationError list" where
  "stateErrors (Inl e) = Inl e"
| "stateErrors (Inr st) = Inr (fst st)"

fun resultErrors :: "exn + ValidationResult \<Rightarrow> exn + ValidationError list" where
  "resultErrors (Inl e) = Inl e"
| "resultErrors (Inr res) = Inr (errors res)"

definition replaceCell :: "FileData \<Rightarrow> nat \<Rightarrow> nat \<Rightarrow> jsvalue \<Rightarrow> FileData" where
  \<comment> \<open>the data with another value in the cell of row \<open>r\<close> (from 0) and column \<open>c\<close>\<close>
  "replaceCell data r c v = data\<lparr>rows := (rows data)[r := (rows data ! r)[c := v]]\<rparr>"






text \<open>Reading the record of calls: the submissions, their outcomes, the progress reports.\<close>

fun submitCalls :: "call list \<Rightarrow> (nat \<times> mappedData \<times> (thrown + jsvalue)) list" where
  "submitCalls [] = []"
| "submitCalls (SubmitCall i importType mapped answer # cs) = (i, mapped, answer) # submitCalls cs"
| "submitCalls (ProgressCall p reply # cs) = submitCalls cs"

fun submitKinds :: "call list \<Rightarrow> ImportType list" where
  "submitKinds [] = []"
| "submitKinds (SubmitCall i importType mapped answer # cs) = importType # submitKinds cs"
| "submitKinds (ProgressCall p reply # cs) = submitKinds cs"

fun progressCalls :: "call list \<Rightarrow> rat list" where
  "progressCalls [] = []"
| "progressCalls (SubmitCall i importType mapped answer # cs) = progressCalls cs"
| "progressCalls (ProgressCall p reply # cs) = p # progressCalls cs"

definition outcomes :: "call list \<Rightarrow> (thrown + jsvalue) list" where
  "outcomes cs = map (\<lambda>c. snd (snd c)) (submitCalls cs)"

fun resolvedIds :: "(thrown + jsvalue) list \<Rightarrow> jsvalue list" where
  \<comment> \<open>the record ids of the submissions that succeeded, in row order\<close>
  "resolvedIds [] = []"
| "resolvedIds (Inr recordId # os) = recordId # resolvedIds os"
| "resolvedIds (Inl t # os) = resolvedIds os"

fun rejections :: "(thrown + jsvalue) list \<Rightarrow> thrown list" where
  \<comment> \<open>what the failing submissions threw, in row order\<close>
  "rejections [] = []"
| "rejections (Inr recordId # os) = rejections os"
| "rejections (Inl t # os) = t # rejections os"

definition neverThrows :: "'w onProgress option \<Rightarrow> bool" where
  \<comment> \<open>no progress callback, or one that returns normally on every call\<close>
  "neverThrows progress =
     (case progress of None \<Rightarrow> True | Some callback \<Rightarrow> \<forall>w p. fst (callback w p) = None)"

subsection \<open>Collaborators and data of the concrete runs\<close>

text \<open>
  The world of the concrete runs is the number of submissions made so far.
  \<open>submitFailingOnSecond\<close> rejects the second submission with a network error and answers
  every other one with a fresh id; \<open>submitMixed\<close> answers the first submission with an id,
  rejects the second and answers every later one with the empty string as id;
  \<open>submitEmptyId\<close> always succeeds with the empty string as id; \<open>quietCallback\<close> returns
  normally and \<open>throwingCallback\<close> throws.
\<close>

definition submitFailingOnSecond :: "nat importRecord" where
  "submitFailingOnSecond w importType mapped =
     (if w = 1 then Inl (ErrorObject ''Network Error'')
      else Inr (JSString (if w = 0 then ''id-1'' else ''id-3'')), w + 1)"

definition submitMixed :: "nat importRecord" where
  "submitMixed w importType mapped =
     (if w = 0 then Inr (JSString ''id-1'')
      else if w = 1 then Inl (ErrorObject ''Network Error'')
      else Inr (JSString []), w + 1)"

definition submitEmptyId :: "nat importRecord" where
  "submitEmptyId w importType mapped = (Inr (JSString []), w + 1)"

definition quietCallback :: "nat onProgress" where
  "quietCallback w p = (None, w)"

definition throwingCallback :: "nat onProgress" where
  "throwingCallback w p = (Some (ErrorObject ''callback failed''), w)"

definition threeRows :: FileData where
  "threeRows =
     \<lparr>headers = [''name''],
      rows = [[JSString ''a''], [JSString ''b''], [JSString ''c'']],
      totalRows = 3\<rparr>"

section \<open>The matrix of \<open>levenshteinDistance\<close>\<close>

lemma lev_Nil2: "lev xs [] = length xs"
  by (cases xs) auto

lemma lev_sym: "lev xs ys = lev ys xs"
  by (induction xs ys rule: lev.induct) (auto simp: lev_Nil2 min.commute min.left_commute)

lemma lev_refl: "lev xs xs = 0"
  by (induction xs) auto

lemma lev_le_max: "lev xs ys \<le> max (length xs) (length ys)"
  by (induction xs ys rule: lev.induct) (auto simp: min_le_iff_disj)

lemma tableCell_0: "tableCell str1 str2 0 j = min j (length str1)"
  by (simp add: tableCell_def)

lemma tableCell_col0: "tableCell str1 str2 i 0 = min i (length str2)"
  by (simp add: tableCell_def lev_Nil2)

lemma tableCell_Suc:
  assumes "i < length str2" "j < length str1"
  shows "tableCell str1 str2 (Suc i) (Suc j) =
     (if str2 ! i = str1 ! j then tableCell str1 str2 i j
      else min (tableCell str1 str2 i j + 1)
             (min (tableCell str1 str2 (Suc i) j + 1) (tableCell str1 str2 i (Suc j) + 1)))"
  using assms by (simp add: tableCell_def take_Suc_conv_app_nth)

lemma initRows_eq: "initRows str2 = map (\<lambda>i. [i]) [0..<Suc (length str2)]"
proof -
  have "fold (\<lambda>i m. if i < length m then m[i := [i]] else m @ [[i]]) [0..<n] []
          = map (\<lambda>i. [i]) [0..<n]" for n :: nat
    by (induction n) simp_all
  then show ?thesis unfolding initRows_def .
qed

lemma firstRow_fold:
  "fold (\<lambda>j m. setCell m 0 j j) [0..<Suc k] (initRows str2) = (initRows str2)[0 := [0..<Suc k]]"
proof (induction k)
  case 0
  show ?case by (simp add: setCell_def initRows_eq upt_rec[of 0])
next
  case (Suc k)
  have "fold (\<lambda>j m. setCell m 0 j j) [0..<Suc (Suc k)] (initRows str2)
        = setCell ((initRows str2)[0 := [0..<Suc k]]) 0 (Suc k) (Suc k)"
    using Suc by simp
  also have "\<dots> = (initRows str2)[0 := [0..<Suc (Suc k)]]"
    by (simp add: setCell_def initRows_eq)
  finally show ?case .
qed

lemma initFirstRow_partial:
  "initFirstRow str1 (initRows str2) = partialMatrix str1 str2 0 (length str1)"
  unfolding initFirstRow_def firstRow_fold
  by (rule nth_equalityI)
     (auto simp: partialMatrix_def initRows_eq nth_list_update tableCell_0
           simp del: upt_Suc intro!: nth_equalityI)

lemma partialMatrix_next_row:
  assumes "r < length str2"
  shows "partialMatrix str1 str2 r (length str1) = partialMatrix str1 str2 (Suc r) 0"
proof -
  have one: "[0..<Suc 0] = [0]" by simp
  from assms show ?thesis
    unfolding partialMatrix_def
    by (intro map_cong refl) (auto simp: tableCell_col0 one less_Suc_eq simp del: upt_Suc)
qed

lemma partialMatrix_step:
  assumes "i < length str2" "c < length str1"
  shows "setCell (partialMatrix str1 str2 (Suc i) c) (Suc i) (Suc c)
           (cellValue str1 str2 (partialMatrix str1 str2 (Suc i) c) (Suc i) (Suc c))
         = partialMatrix str1 str2 (Suc i) (Suc c)"
proof -
  let ?m = "partialMatrix str1 str2 (Suc i) c"
  have r1: "?m ! Suc i = map (tableCell str1 str2 (Suc i)) [0..<Suc c]"
    using assms by (simp add: partialMatrix_def del: upt_Suc)
  have r0: "?m ! i = map (tableCell str1 str2 i) [0..<Suc (length str1)]"
    using assms by (simp add: partialMatrix_def del: upt_Suc)
  have cv: "cellValue str1 str2 ?m (Suc i) (Suc c) = tableCell str1 str2 (Suc i) (Suc c)"
    using assms unfolding cellValue_def
    by (simp add: r0 r1 tableCell_Suc del: upt_Suc)
  show ?thesis
    unfolding cv setCell_def r1
    using assms
    by (auto simp: partialMatrix_def nth_list_update nth_append less_Suc_eq
             simp del: upt_Suc intro!: nth_equalityI)
qed

lemma fillRow_partial:
  assumes "i < length str2"
  shows "fillRow str1 str2 (Suc i) (partialMatrix str1 str2 (Suc i) 0)
         = partialMatrix str1 str2 (Suc i) (length str1)"
proof -
  have "k \<le> length str1 \<Longrightarrow>
        fold (\<lambda>j m. setCell m (Suc i) j (cellValue str1 str2 m (Suc i) j)) [1..<Suc k]
          (partialMatrix str1 str2 (Suc i) 0) = partialMatrix str1 str2 (Suc i) k" for k
  proof (induction k)
    case 0
    show ?case by simp
  next
    case (Suc k)
    then show ?case using partialMatrix_step[OF assms, of k str1] by simp
  qed
  from this[of "length str1"] show ?thesis by (simp add: fillRow_def)
qed

lemma levMatrix_fold:
  "r \<le> length str2 \<Longrightarrow>
   fold (fillRow str1 str2) [1..<Suc r] (partialMatrix str1 str2 0 (length str1))
     = partialMatrix str1 str2 r (length str1)"
proof (induction r)
  case 0
  show ?case by simp
next
  case (Suc r)
  then show ?case
    using fillRow_partial[of r str2 str1] partialMatrix_next_row[of r str2 str1] by simp
qed

lemma levMatrix_partial:
  "levMatrix str1 str2 = partialMatrix str1 str2 (length str2) (length str1)"
  using levMatrix_fold[of "length str2" str2 str1]
  by (simp add: levMatrix_def initFirstRow_partial del: upt_Suc)

lemma levMatrix_table:
  "levMatrix str1 str2 =
     map (\<lambda>i. map (tableCell str1 str2 i) [0..<Suc (length str1)]) [0..<Suc (length str2)]"
  unfolding levMatrix_partial partialMatrix_def
  by (intro map_cong refl) (auto simp: less_Suc_eq simp del: upt_Suc)

lemma levMatrix_shape:
  "length (levMatrix str1 str2) = Suc (length str2) \<and>
   (\<forall>row \<in> set (levMatrix str1 str2). length row = Suc (length str1))"
  by (auto simp: levMatrix_table simp del: upt_Suc)

lemma levenshteinDistance_lev: "levenshteinDistance str1 str2 = lev (rev str2) (rev str1)"
  by (simp add: levenshteinDistance_def levMatrix_table tableCell_def del: upt_Suc)

subsection \<open>The recurrence is the minimum number of edits\<close>

lemma edits_to_Nil: "edits zs [] (length zs)"
  by (induction zs) (auto intro: edits.intros)

lemma edits_from_Nil: "edits [] zs (length zs)"
  by (induction zs) (auto intro: edits.intros)

lemma edits_lev: "edits xs ys (lev xs ys)"
proof (induction xs ys rule: lev.induct)
  case (1 ys)
  show ?case by (simp add: edits_from_Nil)
next
  case (2 x xs)
  show ?case using edits_to_Nil[of "x # xs"] by simp
next
  case (3 x xs y ys)
  then show ?case by (auto intro: edits.intros simp: min_def)
qed

lemma lev_lipschitz:
  "lev xs ys \<le> Suc (lev (x # xs) ys) \<and> lev (x # xs) ys \<le> Suc (lev xs ys)"
proof (induction "length xs + length ys" arbitrary: xs ys x rule: less_induct)
  case less
  show ?case
  proof (cases ys)
    case Nil
    then show ?thesis by (simp add: lev_Nil2)
  next
    case (Cons y ys')
    have A: "lev xs ys' \<le> Suc (lev (x # xs) ys')" "lev (x # xs) ys' \<le> Suc (lev xs ys')" for x
      using less[of xs ys' x] Cons by auto
    have B: "lev xs ys' \<le> Suc (lev xs (y # ys'))" "lev xs (y # ys') \<le> Suc (lev xs ys')" for y
      using less[of ys' xs y] Cons by (auto simp: lev_sym[of xs])
    show ?thesis unfolding Cons
      using A[of x] B[of y] by (auto simp: min_def)
  qed
qed

lemma lev_le_edits: "edits xs ys n \<Longrightarrow> lev xs ys \<le> n"
proof (induction rule: edits.induct)
  case edits_Nil
  show ?case by simp
next
  case (edits_keep xs ys n x)
  then show ?case by simp
next
  case (edits_subst xs ys n x y)
  then show ?case by (auto simp: min_le_iff_disj)
next
  case (edits_delete xs ys n x)
  then show ?case using lev_lipschitz[of xs ys x] by linarith
next
  case (edits_insert xs ys n y)
  then show ?case using lev_lipschitz[of ys xs y] by (simp add: lev_sym[of xs])
qed

lemma editDistance_spec_lev: "editDistance_spec xs ys = lev xs ys"
  unfolding editDistance_spec_def
  by (rule Least_equality) (auto intro: edits_lev lev_le_edits)

lemma edits_append:
  "edits xs ys n \<Longrightarrow> edits us vs m \<Longrightarrow> edits (xs @ us) (ys @ vs) (n + m)"
  by (induction rule: edits.induct) (auto intro: edits.intros)

lemma edits_rev: "edits xs ys n \<Longrightarrow> edits (rev xs) (rev ys) n"
proof (induction rule: edits.induct)
  case edits_Nil
  show ?case by (simp add: edits.edits_Nil)
next
  case (edits_keep xs ys n x)
  from edits_append[OF edits_keep.IH, of "[x]" "[x]" 0] show ?case
    by (simp add: edits.intros)
next
  case (edits_subst xs ys n x y)
  from edits_append[OF edits_subst.IH, of "[x]" "[y]" 1] show ?case
    by (simp add: edits.intros)
next
  case (edits_delete xs ys n x)
  from edits_append[OF edits_delete.IH, of "[x]" "[]" 1] show ?case
    by (simp add: edits.intros)
next
  case (edits_insert xs ys n y)
  from edits_append[OF edits_insert.IH, of "[]" "[y]" 1] show ?case
    by (simp add: edits.intros)
qed

lemma lev_rev: "lev (rev xs) (rev ys) = lev xs ys"
proof (rule antisym)
  show "lev (rev xs) (rev ys) \<le> lev xs ys"
    by (rule lev_le_edits[OF edits_rev[OF edits_lev]])
  have "lev (rev (rev xs)) (rev (rev ys)) \<le> lev (rev xs) (rev ys)"
    by (rule lev_le_edits[OF edits_rev[OF edits_lev]])
  then show "lev xs ys \<le> lev (rev xs) (rev ys)" by simp
qed

lemma levenshteinDistance_spec: "levenshteinDistance str1 str2 = editDistance_spec str1 str2"
  by (simp add: levenshteinDistance_lev editDistance_spec_lev lev_rev lev_sym[of str2])

lemma levenshteinDistance_sym: "levenshteinDistance str1 str2 = levenshteinDistance str2 str1"
  by (simp add: levenshteinDistance_lev lev_sym[of "rev str2"])

lemma levenshteinDistance_le: "levenshteinDistance str1 str2 \<le> max (length str1) (length str2)"
  using lev_le_max[of "rev str2" "rev str1"] by (simp add: levenshteinDistance_lev max.commute)

lemma levenshteinDistance_refl: "levenshteinDistance str str = 0"
  by (simp add: levenshteinDistance_lev lev_refl)

lemma calculateSimilarity_formula:
  "calculateSimilarity a b =
     (if max (length a) (length b) = 0 then 1
      else (of_nat (max (length a) (length b)) - of_nat (levenshteinDistance a b))
             / of_nat (max (length a) (length b)))"
  by (auto simp: calculateSimilarity_def Let_def max_def levenshteinDistance_sym[of b a])

lemma calculateSimilarity_examples:
  "calculateSimilarity ''kitten'' ''sitting'' = 4 / 7"
  "calculateSimilarity ''campaignname'' ''name'' = 1 / 3"
  "calculateSimilarity ''ab'' '''' = 0"
  by code_simp+

section \<open>Claims on the Similarity Scorer\<close>

text \<open>
  C6 (similarity bounds and identity).  For all strings \<open>a\<close> and \<open>b\<close> the score
  \<open>calculateSimilarity a b\<close> lies in the closed interval from 0 to 1, the score of a string
  with itself is 1, the score of two empty strings is 1, and the score is
  \<open>(max(len a, len b) - editDistance) / max(len a, len b)\<close>, where \<open>editDistance\<close> is the
  Levenshtein distance of the two strings: the minimum number of single-character
  insertions, deletions and substitutions that transform one into the other.
\<close>

theorem C6_similarity_bounds_identity:
  "0 \<le> calculateSimilarity a b \<and> calculateSimilarity a b \<le> 1 \<and>
   calculateSimilarity a a = 1 \<and>
   calculateSimilarity ([] :: 'a list) [] = 1 \<and>
   calculateSimilarity a b =
     (if max (length a) (length b) = 0 then 1
      else (of_nat (max (length a) (length b)) - of_nat (editDistance_spec a b))
             / of_nat (max (length a) (length b)))"
proof -
  let ?n = "max (length a) (length b)"
  let ?d = "levenshteinDistance a b"
  have d: "?d \<le> ?n" by (rule levenshteinDistance_le)
  have lo: "0 \<le> calculateSimilarity a b"
    unfolding calculateSimilarity_formula using d by (simp add: of_nat_diff)
  have hi: "calculateSimilarity a b \<le> 1"
    unfolding calculateSimilarity_formula by (simp add: divide_le_eq)
  have same: "calculateSimilarity a a = 1"
    unfolding calculateSimilarity_formula by (simp add: levenshteinDistance_refl)
  have empty: "calculateSimilarity ([] :: 'a list) [] = 1"
    by (simp add: calculateSimilarity_def)
  have spec: "calculateSimilarity a b =
     (if ?n = 0 then 1
      else (of_nat ?n - of_nat (editDistance_spec a b)) / of_nat ?n)"
    unfolding calculateSimilarity_formula levenshteinDistance_spec ..
  from lo hi same empty spec show ?thesis by blast
qed

text \<open>
  C7 (similarity symmetry).  For all strings \<open>a\<close> and \<open>b\<close>,
  \<open>calculateSimilarity a b = calculateSimilarity b a\<close>.
\<close>

theorem C7_similarity_symmetric: "calculateSimilarity a b = calculateSimilarity b a"
  unfolding calculateSimilarity_formula
  by (simp add: max.commute levenshteinDistance_sym[of a b])

section \<open>Claims on the Field Mapper\<close>

lemma getTargetFields_nonempty: "getTargetFields importType \<noteq> []"
  by (cases importType) simp_all

lemma bestMatchStep_snd:
  "snd (bestMatchStep normalized target best) =
     max (snd best) (calculateSimilarity normalized (normalizeHeader target))"
  by (simp add: bestMatchStep_def Let_def max_def)

lemma fold_bestMatchStep_snd:
  "snd (fold (bestMatchStep normalized) targets best) =
     Max (insert (snd best)
            ((\<lambda>target. calculateSimilarity normalized (normalizeHeader target)) ` set targets))"
proof (induction targets arbitrary: best)
  case Nil
  show ?case by simp
next
  case (Cons t targets)
  let ?f = "\<lambda>target. calculateSimilarity normalized (normalizeHeader target)"
  have "Max (insert (max (snd best) (?f t)) (?f ` set targets)) =
        Max (insert (snd best) (insert (?f t) (?f ` set targets)))"
    by (cases "targets = []") (simp_all add: max.assoc)
  then show ?case
    by (simp add: Cons.IH bestMatchStep_snd)
qed

lemma findBestMatch_threshold:
  "(1 / 2 < snd (findBestMatch header importType)) = (1 / 2 < bestSimilarity header importType)"
proof -
  let ?S = "(\<lambda>target. calculateSimilarity (normalizeHeader header) (normalizeHeader target))
              ` set (getTargetFields importType)"
  have ne: "?S \<noteq> {}" using getTargetFields_nonempty[of importType] by simp
  have "snd (findBestMatch header importType) = max 0 (Max ?S)"
    unfolding findBestMatch_def fold_bestMatchStep_snd using ne by simp
  then show ?thesis by (auto simp: bestSimilarity_def max_def)
qed

lemma fold_update_keys:
  "fst ` set (fold (\<lambda>header mapping. if P header then AList.update header (g header) mapping
                                       else mapping) hdrs m0)
   = fst ` set m0 \<union> {header \<in> set hdrs. P header}"
  by (induction hdrs arbitrary: m0) (auto simp: dom_update)

lemma generateFieldMapping_keys:
  "fst ` set (generateFieldMapping hdrs importType) =
     {header \<in> set hdrs. 1 / 2 < snd (findBestMatch header importType)}"
  using fold_update_keys[of "\<lambda>header. 1 / 2 < snd (findBestMatch header importType)"
                            "\<lambda>header. fst (findBestMatch header importType)" hdrs "[]"]
  by (simp add: generateFieldMapping_def Let_def)

text \<open>
  The one header for which an assignment \<open>mapping[header] = t\<close> would not create a property
  of the mapping object is \<open>__proto__\<close>.  Its best score is below the threshold for every
  import kind, so \<open>generateFieldMapping\<close> never makes that assignment.
\<close>

lemma normalizeHeader_targets:
  "normalizeHeader ''__proto__'' = ''proto''"
  "normalizeHeader ''amount'' = ''amount''"
  "normalizeHeader ''bid'' = ''bid''"
  "normalizeHeader ''budget'' = ''budget''"
  "normalizeHeader ''budget_type'' = ''budgettype''"
  "normalizeHeader ''call_to_action'' = ''calltoaction''"
  "normalizeHeader ''campaign_id'' = ''campaignid''"
  "normalizeHeader ''currency'' = ''currency''"
  "normalizeHeader ''description'' = ''description''"
  "normalizeHeader ''end_date'' = ''enddate''"
  "normalizeHeader ''headline'' = ''headline''"
  "normalizeHeader ''keyword'' = ''keyword''"
  "normalizeHeader ''match_type'' = ''matchtype''"
  "normalizeHeader ''name'' = ''name''"
  "normalizeHeader ''objective'' = ''objective''"
  "normalizeHeader ''platform'' = ''platform''"
  "normalizeHeader ''size'' = ''size''"
  "normalizeHeader ''start_date'' = ''startdate''"
  "normalizeHeader ''status'' = ''status''"
  "normalizeHeader ''type'' = ''type''"
  by code_simp+

lemma proto_scores:
  "calculateSimilarity ''proto'' ''amount'' = 1 / 6"
  "calculateSimilarity ''proto'' ''bid'' = 0"
  "calculateSimilarity ''proto'' ''budget'' = 0"
  "calculateSimilarity ''proto'' ''budgettype'' = 1 / 10"
  "calculateSimilarity ''proto'' ''calltoaction'' = 1 / 4"
  "calculateSimilarity ''proto'' ''campaignid'' = 1 / 10"
  "calculateSimilarity ''proto'' ''currency'' = 1 / 8"
  "calculateSimilarity ''proto'' ''description'' = 3 / 11"
  "calculateSimilarity ''proto'' ''enddate'' = 1 / 7"
  "calculateSimilarity ''proto'' ''headline'' = 0"
  "calculateSimilarity ''proto'' ''keyword'' = 1 / 7"
  "calculateSimilarity ''proto'' ''matchtype'' = 1 / 9"
  "calculateSimilarity ''proto'' ''name'' = 0"
  "calculateSimilarity ''proto'' ''objective'' = 1 / 9"
  "calculateSimilarity ''proto'' ''platform'' = 3 / 8"
  "calculateSimilarity ''proto'' ''size'' = 0"
  "calculateSimilarity ''proto'' ''startdate'' = 2 / 9"
  "calculateSimilarity ''proto'' ''status'' = 1 / 6"
  "calculateSimilarity ''proto'' ''type'' = 0"
  by code_simp+

lemma proto_best_score: "snd (findBestMatch ''__proto__'' importType) \<le> 3 / 8"
  by (cases importType)
     (simp_all add: findBestMatch_def bestMatchStep_def normalizeHeader_targets proto_scores)

lemma proto_never_mapped: "''__proto__'' \<notin> fst ` set (generateFieldMapping hdrs importType)"
  using proto_best_score[of importType] by (simp add: generateFieldMapping_keys)

text \<open>
  C3 (mapping threshold).  For every list of source headers and every import kind, the
  mapping produced by \<open>generateFieldMapping\<close> has an entry for a header exactly when the
  header is one of the source headers and its best similarity score, the greatest score
  between the normalized header and a normalized target field, is strictly greater than
  0.5.  So no entry has a best score of 0.5 or less, and a header with such a score is
  absent.
\<close>

theorem C3_mapping_threshold:
  "(header \<in> fst ` set (generateFieldMapping hdrs importType)) =
     (header \<in> set hdrs \<and> 1 / 2 < bestSimilarity header importType)"
  unfolding generateFieldMapping_keys findBestMatch_threshold by blast

theorem C3_mapping_threshold_witness:
  "(''Bid'' \<in> fst ` set (generateFieldMapping [''Bid'', ''zz''] KEYWORDS)) =
     (''Bid'' \<in> set [''Bid'', ''zz''] \<and> 1 / 2 < bestSimilarity ''Bid'' KEYWORDS)
   \<and> generateFieldMapping [''Bid'', ''zz''] KEYWORDS = [(''Bid'', ''bid'')]"
proof -
  have n: "normalizeHeader ''Bid'' = ''bid''" "normalizeHeader ''zz'' = ''zz''"
    by code_simp+
  have s1: "calculateSimilarity ''bid'' ''keyword'' = 1 / 7" by code_simp
  have s2: "calculateSimilarity ''bid'' ''matchtype'' = 0" by code_simp
  have s3: "calculateSimilarity ''bid'' ''bid'' = 1" by code_simp
  have s4: "calculateSimilarity ''bid'' ''status'' = 0" by code_simp
  have z1: "calculateSimilarity ''zz'' ''keyword'' = 0" by code_simp
  have z2: "calculateSimilarity ''zz'' ''matchtype'' = 0" by code_simp
  have z3: "calculateSimilarity ''zz'' ''bid'' = 0" by code_simp
  have z4: "calculateSimilarity ''zz'' ''status'' = 0" by code_simp
  have b: "findBestMatch ''Bid'' KEYWORDS = (''bid'', 1)"
    by (simp add: findBestMatch_def bestMatchStep_def n normalizeHeader_targets s1 s2 s3 s4)
  have z: "findBestMatch ''zz'' KEYWORDS = ([], 0)"
    by (simp add: findBestMatch_def bestMatchStep_def n normalizeHeader_targets z1 z2 z3 z4)
  have e: "generateFieldMapping [''Bid'', ''zz''] KEYWORDS = [(''Bid'', ''bid'')]"
    by (simp add: generateFieldMapping_def b z)
  show ?thesis
    by (rule conjI[OF C3_mapping_threshold[of "''Bid''" "[''Bid'', ''zz'']" KEYWORDS] e])
qed

section \<open>Facts about the Row Validator\<close>










text \<open>What the validator does with an empty cell and with a number in a ranged column.\<close>

lemma validateColumn_empty_required:
  assumes "isRequiredField header importType" and "isEmptyCell (cellAt row colIndex)"
  shows "validateColumn h row importType rowNumber (header, colIndex) (errs, warns) =
           Inr (errs @ [\<lparr>err_row = rowNumber, err_column = header,
                         err_value = cellAt row colIndex,
                         err_message = RequiredFieldIsEmpty, err_type = RequiredKind\<rparr>], warns)"
  using assms by (auto simp: validateColumn_def Let_def isEmptyCell_def)

lemma getFieldRange_number:
  "getFieldRange header importType = Some rng \<Longrightarrow> getFieldType header importType = ''number''"
  by (auto simp: getFieldRange_def getFieldType_def split: if_splits)

lemma validateColumn_number_in_ranged_column:
  assumes "cellAt row colIndex = JSNumber n" and "getFieldRange header importType = Some rng"
  shows "validateColumn h row importType rowNumber (header, colIndex) (errs, warns) =
           Inr (errs,
                if js_less n (Finite (range_min rng)) \<or> js_less (Finite (range_max rng)) n
                then warns @ [\<lparr>warn_row = rowNumber, warn_column = header,
                               warn_value = JSNumber n,
                               warn_message = ValueOutsideExpectedRange
                                 (range_min rng) (range_max rng)\<rparr>]
                else warns)"
  using assms getFieldRange_number[OF assms(2)]
  by (simp add: validateColumn_def Let_def isEmptyCell_def validateType_def)

text \<open>
  The list of errors does not depend on the number that stands in a ranged column:
  replacing it by any other number, in or out of the range, leaves the errors of
  \<open>performValidation\<close> (and whether it throws) as they were.
\<close>

lemma validateColumn_errors_same_cell:
  assumes "fst st = fst st'" and "cellAt row j = cellAt row' j"
  shows "stateErrors (validateColumn h row importType rowNumber (header, j) st) =
         stateErrors (validateColumn h row' importType rowNumber (header, j) st')"
  using assms by (auto simp: validateColumn_def Let_def split: sum.splits)

lemma validateColumn_errors_number_cell:
  assumes "fst st = fst st'" and "cellAt row j = JSNumber n" and "cellAt row' j = JSNumber n'"
    and "getFieldRange header importType = Some rng"
  shows "stateErrors (validateColumn h row importType rowNumber (header, j) st) =
         stateErrors (validateColumn h row' importType rowNumber (header, j) st')"
proof -
  obtain errs warns warns' where st: "st = (errs, warns)" and st': "st' = (errs, warns')"
    using assms(1) by (cases st; cases st') auto
  show ?thesis
    unfolding st st'
    by (simp add: validateColumn_number_in_ranged_column[OF assms(2) assms(4)]
                  validateColumn_number_in_ranged_column[OF assms(3) assms(4)])
qed

lemma foldE_errors_related:
  fixes f g :: "'a \<Rightarrow> report \<Rightarrow> exn + report"
  assumes "\<And>x s s'. x \<in> set xs \<Longrightarrow> fst s = fst s' \<Longrightarrow>
             stateErrors (f x s) = stateErrors (g x s')"
    and "fst s = fst s'"
  shows "stateErrors (foldE f xs s) = stateErrors (foldE g xs s')"
  using assms
proof (induction xs arbitrary: s s')
  case Nil
  then show ?case by simp
next
  case (Cons x xs)
  have step: "stateErrors (f x s) = stateErrors (g x s')"
    by (rule Cons.prems(1)[OF _ Cons.prems(2)]) simp
  show ?case
  proof (cases "f x s")
    case (Inl e)
    with step have "g x s' = Inl e" by (cases "g x s'") auto
    with Inl show ?thesis by simp
  next
    case (Inr s1)
    with step obtain s1' where g: "g x s' = Inr s1'" and eq: "fst s1 = fst s1'"
      by (cases "g x s'") auto
    have "stateErrors (foldE f xs s1) = stateErrors (foldE g xs s1')"
    proof (rule Cons.IH)
      show "fst s1 = fst s1'" by (rule eq)
    next
      fix y :: 'a and t t' :: report
      assume y: "y \<in> set xs" and t: "fst t = fst t'"
      show "stateErrors (f y t) = stateErrors (g y t')"
        by (rule Cons.prems(1)[OF _ t]) (simp add: y)
    qed
    with Inr g show ?thesis by simp
  qed
qed

lemma foldE_map: "foldE f (map g xs) s = foldE (\<lambda>x. f (g x)) xs s"
  by (induction xs arbitrary: s) (auto split: sum.splits)

lemma zip_upt_map: "zip xs [0..<length xs] = map (\<lambda>i. (xs ! i, i)) [0..<length xs]"
  by (rule nth_equalityI) simp_all

lemma validateRow_errors_number_cell:
  assumes "fst st = fst st'" and "c < length row" and "c < length hdrs"
    and "row ! c = JSNumber n" and "getFieldRange (hdrs ! c) importType = Some rng"
  shows "stateErrors (validateRow h row hdrs importType rowNumber st) =
         stateErrors (validateRow h (row[c := JSNumber n']) hdrs importType rowNumber st')"
  unfolding validateRow_def zip_upt_map foldE_map
proof (rule foldE_errors_related[OF _ assms(1)])
  fix j :: nat and s s' :: report
  assume j: "j \<in> set [0..<length hdrs]" and s: "fst s = fst s'"
  show "stateErrors (validateColumn h row importType rowNumber (hdrs ! j, j) s) =
        stateErrors (validateColumn h (row[c := JSNumber n']) importType rowNumber
                          (hdrs ! j, j) s')"
  proof (cases "j = c")
    case True
    show ?thesis unfolding True
      by (rule validateColumn_errors_number_cell[OF s _ _ assms(5)])
         (simp_all add: cellAt_def assms(2) assms(4))
  next
    case False
    show ?thesis
      using False by (intro validateColumn_errors_same_cell[OF s]) (auto simp: cellAt_def)
  qed
qed

lemma validateRow_errors_same_row:
  assumes "fst st = fst st'"
  shows "stateErrors (validateRow h row hdrs importType rowNumber st) =
         stateErrors (validateRow h row hdrs importType rowNumber st')"
  unfolding validateRow_def zip_upt_map foldE_map
  by (rule foldE_errors_related[OF _ assms]) (rule validateColumn_errors_same_cell, simp_all)

lemma resultErrors_performValidation:
  "resultErrors (performValidation h data importType) =
     stateErrors
       (foldE (\<lambda>i. validateRow h (rows data ! i) (headers data) importType (i + 1))
          [0..<length (rows data)] (missingColumns data importType, []))"
  by (simp add: performValidation_def zip_upt_map foldE_map split: sum.splits)

lemma performValidation_errors_number_cell:
  assumes "r < length (rows data)" and "c < length (rows data ! r)"
    and "c < length (headers data)"
    and "rows data ! r ! c = JSNumber n"
    and "getFieldRange (headers data ! c) importType = Some rng"
  shows "resultErrors (performValidation h (replaceCell data r c (JSNumber n')) importType) =
         resultErrors (performValidation h data importType)"
proof -
  let ?d' = "replaceCell data r c (JSNumber n')"
  have hd: "headers ?d' = headers data" and len: "length (rows ?d') = length (rows data)"
    by (simp_all add: replaceCell_def)
  have mc: "missingColumns ?d' importType = missingColumns data importType"
    by (simp add: missingColumns_def hd)
  have rel: "stateErrors
          (foldE (\<lambda>i. validateRow h (rows ?d' ! i) (headers data) importType (i + 1))
             [0..<length (rows data)] (missingColumns data importType, [])) =
        stateErrors
          (foldE (\<lambda>i. validateRow h (rows data ! i) (headers data) importType (i + 1))
             [0..<length (rows data)] (missingColumns data importType, []))"
  proof (rule foldE_errors_related[OF _ refl])
    fix i :: nat and s s' :: report
    assume i: "i \<in> set [0..<length (rows data)]" and s: "fst s = fst s'"
    show "stateErrors (validateRow h (rows ?d' ! i) (headers data) importType (i + 1) s) =
          stateErrors (validateRow h (rows data ! i) (headers data) importType (i + 1) s')"
    proof (cases "i = r")
      case True
      have "rows ?d' ! r = (rows data ! r)[c := JSNumber n']"
        using assms(1) by (simp add: replaceCell_def)
      then show ?thesis unfolding True
        using validateRow_errors_number_cell[OF s[symmetric] assms(2) assms(3) assms(4) assms(5),
                of h "r + 1" n'] by simp
    next
      case False
      then have "rows ?d' ! i = rows data ! i" by (simp add: replaceCell_def)
      then show ?thesis using validateRow_errors_same_row[OF s] by simp
    qed
  qed
  show ?thesis
    unfolding resultErrors_performValidation len hd mc by (rule rel)
qed












section \<open>Claims on the Row Validator\<close>

text \<open>
  C2 (required-field cell check).  The claim: for every row and every column whose raw
  header is a required field of the import kind, a cell that is \<open>null\<close>, \<open>undefined\<close>, or an
  empty or whitespace-only string gets a required-kind error.  The code compares the cell
  with \<open>null\<close>, \<open>undefined\<close> and \<open>''\<close> only (lemma \<open>validateColumn_empty_required\<close> is the
  part of the claim that holds).  At the input below the required column \<open>name\<close> holds the
  whitespace-only string of three blanks, and validation reports no error at all.
\<close>

theorem C2_whitespace_only_cell_not_reported:
  "performValidation stubHost
     \<lparr>headers = [''name'', ''platform'', ''objective'', ''budget''],
      rows = [[JSString ''   '', JSString ''meta'', JSString ''sales'', JSNumber (Finite 100)]],
      totalRows = 1\<rparr> CAMPAIGNS =
   Inr \<lparr>isValid = True, errors = [], warnings = [],
        summary = \<lparr>summary_totalRows = 1, validRows = 1, invalidRows = 0,
                   errorCount = 0, warningCount = 0\<rparr>\<rparr>
   \<and> isRequiredField ''name'' CAMPAIGNS"
  by code_simp




text \<open>
  C8 (range violations are warnings, not errors), as stated: a numeric cell whose header
  matches \<open>bid\<close> is flagged, as a warning, when it is outside 0 to 100.  \<open>getFieldRange\<close> looks
  for \<open>budget\<close> and \<open>amount\<close> in the header before it looks for \<open>bid\<close>, so a header that contains
  \<open>bid\<close> and one of these has the range 0 to 1000000.  The header \<open>bid_amount\<close> matches \<open>bid\<close>,
  and its cell of 150, above 100, gets no warning.
\<close>

theorem C8_counterexample:
  "str_includes (toLowerCase ''bid_amount'') ''bid''
   \<and> js_less (Finite 100) (Finite 150)
   \<and> getFieldRange ''bid_amount'' KEYWORDS = Some \<lparr>range_min = 0, range_max = 1000000\<rparr>
   \<and> performValidation stubHost
        \<lparr>headers = [''keyword'', ''match_type'', ''bid_amount''],
         rows = [[JSString ''shoes'', JSString ''exact'', JSNumber (Finite 150)]],
         totalRows = 1\<rparr> KEYWORDS =
      Inr \<lparr>isValid = True, errors = [], warnings = [],
           summary = \<lparr>summary_totalRows = 1, validRows = 1, invalidRows = 0,
                      errorCount = 0, warningCount = 0\<rparr>\<rparr>"
  by code_simp

text \<open>
  C8, amended.  A cell that holds a number, in a column for which \<open>getFieldRange\<close> gives a
  range, adds nothing to the list of errors, and adds one warning exactly when the number
  is below the minimum or above the maximum of the range.
  The errors that \<open>performValidation\<close> returns do not depend on that number at all: they
  stay the same when it is replaced by any other number.  The range is 0 to 1000000 for a
  header that contains \<open>budget\<close> or \<open>amount\<close>, and 0 to 100 for a header that contains \<open>bid\<close>
  and neither \<open>budget\<close> nor \<open>amount\<close>.  For a \<open>bid\<close> cell of 150 and no other problem,
  validation returns one warning, no error, and \<open>isValid = true\<close>.
\<close>

theorem C8_range_violation_is_warning:
  "(cellAt row colIndex = JSNumber n \<and> getFieldRange header importType = Some rng \<longrightarrow>
      validateColumn h row importType rowNumber (header, colIndex) (errs, warns) =
        Inr (errs,
             if js_less n (Finite (range_min rng)) \<or> js_less (Finite (range_max rng)) n
             then warns @ [\<lparr>warn_row = rowNumber, warn_column = header,
                            warn_value = JSNumber n,
                            warn_message = ValueOutsideExpectedRange
                              (range_min rng) (range_max rng)\<rparr>]
             else warns))
   \<and> (r < length (rows data) \<and> c < length (rows data ! r) \<and> c < length (headers data) \<and>
        rows data ! r ! c = JSNumber n \<and>
        getFieldRange (headers data ! c) importType = Some rng
        \<longrightarrow> resultErrors (performValidation h (replaceCell data r c (JSNumber n')) importType)
            = resultErrors (performValidation h data importType))
   \<and> (str_includes (toLowerCase header) ''budget'' \<or> str_includes (toLowerCase header) ''amount''
        \<longrightarrow> getFieldRange header importType = Some \<lparr>range_min = 0, range_max = 1000000\<rparr>)
   \<and> (str_includes (toLowerCase header) ''bid'' \<and> \<not> str_includes (toLowerCase header) ''budget''
        \<and> \<not> str_includes (toLowerCase header) ''amount''
        \<longrightarrow> getFieldRange header importType = Some \<lparr>range_min = 0, range_max = 100\<rparr>)
   \<and> performValidation h
        \<lparr>headers = [''keyword'', ''match_type'', ''bid''],
         rows = [[JSString ''shoes'', JSString ''exact'', JSNumber (Finite 150)]],
         totalRows = 1\<rparr> KEYWORDS =
      Inr \<lparr>isValid = True, errors = [],
           warnings = [\<lparr>warn_row = 1, warn_column = ''bid'',
                         warn_value = JSNumber (Finite 150),
                         warn_message = ValueOutsideExpectedRange 0 100\<rparr>],
           summary = \<lparr>summary_totalRows = 1, validRows = 1, invalidRows = 0,
                      errorCount = 0, warningCount = 1\<rparr>\<rparr>"
proof -
  have ex: "performValidation h
        \<lparr>headers = [''keyword'', ''match_type'', ''bid''],
         rows = [[JSString ''shoes'', JSString ''exact'', JSNumber (Finite 150)]],
         totalRows = 1\<rparr> KEYWORDS =
      Inr \<lparr>isValid = True, errors = [],
           warnings = [\<lparr>warn_row = 1, warn_column = ''bid'',
                         warn_value = JSNumber (Finite 150),
                         warn_message = ValueOutsideExpectedRange 0 100\<rparr>],
           summary = \<lparr>summary_totalRows = 1, validRows = 1, invalidRows = 0,
                      errorCount = 0, warningCount = 1\<rparr>\<rparr>"
    by code_simp
  have cell: "cellAt row colIndex = JSNumber n \<and> getFieldRange header importType = Some rng \<longrightarrow>
      validateColumn h row importType rowNumber (header, colIndex) (errs, warns) =
        Inr (errs,
             if js_less n (Finite (range_min rng)) \<or> js_less (Finite (range_max rng)) n
             then warns @ [\<lparr>warn_row = rowNumber, warn_column = header,
                            warn_value = JSNumber n,
                            warn_message = ValueOutsideExpectedRange
                              (range_min rng) (range_max rng)\<rparr>]
             else warns)"
    using validateColumn_number_in_ranged_column[of row colIndex n header importType rng h
            rowNumber errs warns]
    by blast
  have top: "r < length (rows data) \<and> c < length (rows data ! r) \<and> c < length (headers data) \<and>
        rows data ! r ! c = JSNumber n \<and>
        getFieldRange (headers data ! c) importType = Some rng
        \<longrightarrow> resultErrors (performValidation h (replaceCell data r c (JSNumber n')) importType)
            = resultErrors (performValidation h data importType)"
    using performValidation_errors_number_cell[of r data c n importType rng h n'] by blast
  have r1: "str_includes (toLowerCase header) ''budget'' \<or> str_includes (toLowerCase header) ''amount''
        \<longrightarrow> getFieldRange header importType = Some \<lparr>range_min = 0, range_max = 1000000\<rparr>"
    by (simp add: getFieldRange_def)
  have r2: "str_includes (toLowerCase header) ''bid'' \<and> \<not> str_includes (toLowerCase header) ''budget''
        \<and> \<not> str_includes (toLowerCase header) ''amount''
        \<longrightarrow> getFieldRange header importType = Some \<lparr>range_min = 0, range_max = 100\<rparr>"
    by (simp add: getFieldRange_def)
  from cell top r1 r2 ex show ?thesis by blast
qed

theorem C8_range_violation_is_warning_witness:
  "cellAt [JSNumber (Finite 150)] 0 = JSNumber (Finite 150) \<and>
   getFieldRange ''Max Bid'' KEYWORDS = Some \<lparr>range_min = 0, range_max = 100\<rparr> \<and>
   validateColumn stubHost [JSNumber (Finite 150)] KEYWORDS 1 (''Max Bid'', 0) ([], []) =
     Inr ([], [\<lparr>warn_row = 1, warn_column = ''Max Bid'', warn_value = JSNumber (Finite 150),
                 warn_message = ValueOutsideExpectedRange 0 100\<rparr>]) \<and>
   resultErrors (performValidation stubHost
     \<lparr>headers = [''Max Bid''], rows = [[JSNumber (Finite 150)]], totalRows = 1\<rparr> KEYWORDS) =
   resultErrors (performValidation stubHost
     \<lparr>headers = [''Max Bid''], rows = [[JSNumber (Finite 50)]], totalRows = 1\<rparr> KEYWORDS)"
proof -
  let ?d = "\<lparr>headers = [''Max Bid''], rows = [[JSNumber (Finite 50)]], totalRows = 1\<rparr>"
  have c: "cellAt [JSNumber (Finite 150)] 0 = JSNumber (Finite 150)"
    by (simp add: cellAt_def)
  have g: "getFieldRange ''Max Bid'' KEYWORDS = Some \<lparr>range_min = 0, range_max = 100\<rparr>"
    by code_simp
  have pre: "0 < length (rows ?d) \<and> 0 < length (rows ?d ! 0) \<and> 0 < length (headers ?d) \<and>
        rows ?d ! 0 ! 0 = JSNumber (Finite 50) \<and>
        getFieldRange (headers ?d ! 0) KEYWORDS = Some \<lparr>range_min = 0, range_max = 100\<rparr>"
    by (simp add: g)
  have rep: "replaceCell ?d 0 0 (JSNumber (Finite 150)) =
      \<lparr>headers = [''Max Bid''], rows = [[JSNumber (Finite 150)]], totalRows = 1\<rparr>"
    by (simp add: replaceCell_def)
  from C8_range_violation_is_warning[of "[JSNumber (Finite 150)]" 0 "Finite 150" "''Max Bid''"
         KEYWORDS "\<lparr>range_min = 0, range_max = 100\<rparr>" stubHost 1 "[]" "[]"] c g
  have one: "validateColumn stubHost [JSNumber (Finite 150)] KEYWORDS 1 (''Max Bid'', 0) ([], []) =
     Inr ([], [\<lparr>warn_row = 1, warn_column = ''Max Bid'', warn_value = JSNumber (Finite 150),
                 warn_message = ValueOutsideExpectedRange 0 100\<rparr>])"
    by simp
  from C8_range_violation_is_warning[of "[JSNumber (Finite 50)]" 0 "Finite 50" "''Max Bid''"
         KEYWORDS "\<lparr>range_min = 0, range_max = 100\<rparr>" stubHost 1 "[]" "[]" 0 ?d 0
         "Finite 150"] pre
  have two: "resultErrors (performValidation stubHost (replaceCell ?d 0 0 (JSNumber (Finite 150)))
               KEYWORDS) = resultErrors (performValidation stubHost ?d KEYWORDS)"
    by blast
  from c g one two[unfolded rep] show ?thesis by blast
qed

text \<open>
  C9 (implicit: \<open>validRows\<close> is not a count of valid rows).  \<open>validRows\<close> is \<open>totalRows\<close>
  minus the number of required-kind errors and \<open>invalidRows\<close> is that number.  The
  header-level errors of row 0 are among them, and one data row can bring several.  With no
  data row and no header, the four required columns of a campaign import are missing:
  \<open>validRows = -4\<close> and \<open>invalidRows = 4\<close> for \<open>totalRows = 0\<close>.  With two data rows that
  each have two empty required cells, \<open>validRows = -2\<close> and \<open>invalidRows = 4\<close>.
\<close>

theorem C9_validRows_can_be_negative:
  "(performValidation h data importType = Inr res \<longrightarrow>
      validRows (summary res) = totalRows data - int (length (requiredErrors (errors res))) \<and>
      invalidRows (summary res) = int (length (requiredErrors (errors res))) \<and>
      summary_totalRows (summary res) = totalRows data)
   \<and> (\<exists>res. performValidation h \<lparr>headers = [], rows = [], totalRows = 0\<rparr> CAMPAIGNS = Inr res \<and>
          map err_row (requiredErrors (errors res)) = [0, 0, 0, 0] \<and>
          summary_totalRows (summary res) = 0 \<and>
          validRows (summary res) = - 4 \<and> invalidRows (summary res) = 4 \<and>
          validRows (summary res) < 0 \<and>
          invalidRows (summary res) > summary_totalRows (summary res))
   \<and> (\<exists>res. performValidation h
          \<lparr>headers = [''name'', ''type'', ''size''],
           rows = [[JSString ''vip'', JSNull],
                   [JSString '''', JSString '''', JSNumber (Finite 5)]],
           totalRows = 2\<rparr> AUDIENCES = Inr res \<and>
          map err_row (requiredErrors (errors res)) = [1, 1, 2, 2] \<and>
          summary_totalRows (summary res) = 2 \<and>
          validRows (summary res) = - 2 \<and> invalidRows (summary res) = 4 \<and>
          validRows (summary res) < 0 \<and>
          invalidRows (summary res) > summary_totalRows (summary res))"
proof -
  have general: "performValidation h data importType = Inr res \<longrightarrow>
      validRows (summary res) = totalRows data - int (length (requiredErrors (errors res))) \<and>
      invalidRows (summary res) = int (length (requiredErrors (errors res))) \<and>
      summary_totalRows (summary res) = totalRows data"
    by (auto simp: performValidation_def split: sum.splits)
  have e1: "performValidation h \<lparr>headers = [], rows = [], totalRows = 0\<rparr> CAMPAIGNS =
    Inr \<lparr>isValid = False,
        errors =
          [\<lparr>err_row = 0, err_column = ''name'', err_value = JSNull,
              err_message = MissingRequiredColumn ''name'', err_type = RequiredKind\<rparr>,
           \<lparr>err_row = 0, err_column = ''platform'', err_value = JSNull,
              err_message = MissingRequiredColumn ''platform'', err_type = RequiredKind\<rparr>,
           \<lparr>err_row = 0, err_column = ''objective'', err_value = JSNull,
              err_message = MissingRequiredColumn ''objective'', err_type = RequiredKind\<rparr>,
           \<lparr>err_row = 0, err_column = ''budget'', err_value = JSNull,
              err_message = MissingRequiredColumn ''budget'', err_type = RequiredKind\<rparr>],
        warnings = [],
        summary = \<lparr>summary_totalRows = 0, validRows = - 4, invalidRows = 4,
                   errorCount = 4, warningCount = 0\<rparr>\<rparr>"
    by code_simp
  have e2: "performValidation h
          \<lparr>headers = [''name'', ''type'', ''size''],
           rows = [[JSString ''vip'', JSNull],
                   [JSString '''', JSString '''', JSNumber (Finite 5)]],
           totalRows = 2\<rparr> AUDIENCES =
    Inr \<lparr>isValid = False,
        errors =
          [\<lparr>err_row = 1, err_column = ''type'', err_value = JSNull,
              err_message = RequiredFieldIsEmpty, err_type = RequiredKind\<rparr>,
           \<lparr>err_row = 1, err_column = ''size'', err_value = JSUndefined,
              err_message = RequiredFieldIsEmpty, err_type = RequiredKind\<rparr>,
           \<lparr>err_row = 2, err_column = ''name'', err_value = JSString [],
              err_message = RequiredFieldIsEmpty, err_type = RequiredKind\<rparr>,
           \<lparr>err_row = 2, err_column = ''type'', err_value = JSString [],
              err_message = RequiredFieldIsEmpty, err_type = RequiredKind\<rparr>],
        warnings = [],
        summary = \<lparr>summary_totalRows = 2, validRows = - 2, invalidRows = 4,
                   errorCount = 4, warningCount = 0\<rparr>\<rparr>"
    by code_simp
  show ?thesis
    apply (intro conjI)
      apply (rule general)
     apply (simp add: e1 requiredErrors_def)
    apply (simp add: e2 requiredErrors_def)
    done
qed

theorem C9_validRows_can_be_negative_witness:
  "performValidation stubHost \<lparr>headers = [''keyword''], rows = [], totalRows = 0\<rparr> KEYWORDS =
     Inr \<lparr>isValid = False,
          errors = [\<lparr>err_row = 0, err_column = ''match_type'', err_value = JSNull,
                     err_message = MissingRequiredColumn ''match_type'',
                     err_type = RequiredKind\<rparr>],
          warnings = [],
          summary = \<lparr>summary_totalRows = 0, validRows = - 1, invalidRows = 1,
                     errorCount = 1, warningCount = 0\<rparr>\<rparr>
   \<and> - 1 = totalRows \<lparr>headers = [''keyword''], rows = [], totalRows = 0\<rparr> - int (length (requiredErrors
        [\<lparr>err_row = 0, err_column = ''match_type'', err_value = JSNull,
                     err_message = MissingRequiredColumn ''match_type'',
                     err_type = RequiredKind\<rparr>]))"
proof -
  let ?d = "\<lparr>headers = [''keyword''], rows = [], totalRows = 0\<rparr>"
  let ?res = "\<lparr>isValid = False,
          errors = [\<lparr>err_row = 0, err_column = ''match_type'', err_value = JSNull,
                     err_message = MissingRequiredColumn ''match_type'',
                     err_type = RequiredKind\<rparr>],
          warnings = [],
          summary = \<lparr>summary_totalRows = 0, validRows = - 1, invalidRows = 1,
                     errorCount = 1, warningCount = 0\<rparr>\<rparr>"
  have e: "performValidation stubHost ?d KEYWORDS = Inr ?res"
    by code_simp
  from C9_validRows_can_be_negative[of stubHost ?d KEYWORDS ?res] e
  show ?thesis by simp
qed

section \<open>Facts about the Import Orchestrator\<close>

lemma submitCalls_append: "submitCalls (cs @ ds) = submitCalls cs @ submitCalls ds"
  by (induction cs rule: submitCalls.induct) auto

lemma submitKinds_append: "submitKinds (cs @ ds) = submitKinds cs @ submitKinds ds"
  by (induction cs rule: submitKinds.induct) auto

lemma progressCalls_append: "progressCalls (cs @ ds) = progressCalls cs @ progressCalls ds"
  by (induction cs rule: progressCalls.induct) auto

lemma resolvedIds_append: "resolvedIds (os @ ps) = resolvedIds os @ resolvedIds ps"
  by (induction os rule: resolvedIds.induct) auto

lemma rejections_append: "rejections (os @ ps) = rejections os @ rejections ps"
  by (induction os rule: rejections.induct) auto

lemma length_resolved_rejected: "length (resolvedIds os) + length (rejections os) = length os"
  by (induction os rule: resolvedIds.induct) auto

text \<open>The effect of one iteration when the progress callback does not throw.\<close>

lemma importStep_effect:
  assumes "neverThrows progress"
    and "mapped = mapRowData inh (rows d ! i) (headers d) m"
    and "answer = fst (submit (world st) k mapped)"
    and "st' = importStep inh submit progress k d m n i st"
  shows "submitCalls (calls st') = submitCalls (calls st) @ [(i, mapped, answer)]"
    and "submitKinds (calls st') = submitKinds (calls st) @ [k]"
    and "result st' =
           (case answer of
              Inl t \<Rightarrow> catchRow d i t (result st)
            | Inr recordId \<Rightarrow>
                if truthy recordId
                then (result st)\<lparr>imported := imported (result st) + 1,
                                 createdRecords := createdRecords (result st) @ [recordId]\<rparr>
                else result st)"
    and "progressCalls (calls st') =
           progressCalls (calls st) @
             (case answer of Inl t \<Rightarrow> []
              | Inr recordId \<Rightarrow>
                  (case progress of None \<Rightarrow> []
                   | Some callback \<Rightarrow> [(of_nat (i + 1) / of_nat n) * 100]))"
  using assms
  by (auto simp: importStep_def Let_def neverThrows_def submitCalls_append submitKinds_append
           progressCalls_append split: sum.splits option.splits)

lemma importLoop_Suc:
  "importLoop inh submit progress k d m w (Suc n) =
     importStep inh submit progress k d m (length (rows d)) n (importLoop inh submit progress k d m w n)"
  by (simp add: importLoop_def)

lemma performImport_importLoop:
  "performImport inh submit progress k d m w =
     (importLoop inh submit progress k d m w (length (rows d)))
       \<lparr>result := (result (importLoop inh submit progress k d m w (length (rows d))))
          \<lparr>success := (failed (result (importLoop inh submit progress k d m w (length (rows d)))) = 0)\<rparr>\<rparr>"
  by (simp add: performImport_def importLoop_def Let_def)

lemma importLoop_inv:
  assumes "neverThrows progress"
  shows "map fst (submitCalls (calls (importLoop inh submit progress k d m w n))) = [0..<n]
       \<and> map (\<lambda>c. fst (snd c)) (submitCalls (calls (importLoop inh submit progress k d m w n)))
           = map (\<lambda>i. mapRowData inh (rows d ! i) (headers d) m) [0..<n]
       \<and> submitKinds (calls (importLoop inh submit progress k d m w n)) = replicate n k
       \<and> imported (result (importLoop inh submit progress k d m w n))
           = length (filter truthy (resolvedIds (outcomes (calls (importLoop inh submit progress k d m w n)))))
       \<and> createdRecords (result (importLoop inh submit progress k d m w n))
           = filter truthy (resolvedIds (outcomes (calls (importLoop inh submit progress k d m w n))))
       \<and> failed (result (importLoop inh submit progress k d m w n))
           = length (rejections (outcomes (calls (importLoop inh submit progress k d m w n))))
       \<and> map ie_error (import_errors (result (importLoop inh submit progress k d m w n)))
           = map errorMessage (rejections (outcomes (calls (importLoop inh submit progress k d m w n))))
       \<and> skipped (result (importLoop inh submit progress k d m w n)) = 0
       \<and> updatedRecords (result (importLoop inh submit progress k d m w n)) = []"
proof (induction n)
  case 0
  show ?case by (simp add: importLoop_def initialResult_def outcomes_def)
next
  case (Suc n)
  let ?st = "importLoop inh submit progress k d m w n"
  let ?mapped = "mapRowData inh (rows d ! n) (headers d) m"
  let ?answer = "fst (submit (world ?st) k ?mapped)"
  note eff = importStep_effect[where inh = inh and progress = progress and d = d and i = n and m = m
      and submit = submit and st = ?st and k = k and n = "length (rows d)",
      OF assms refl refl refl]
  show ?case
    unfolding importLoop_Suc
    using Suc
    by (cases ?answer)
       (simp_all add: eff outcomes_def catchRow_def resolvedIds_append rejections_append
         replicate_append_same)
qed

text \<open>
  The progress reports of a run whose callback does not throw: one for every row whose
  submission resolved, with the percentage of that row, and none for a row that failed.
\<close>

lemma importLoop_progress:
  assumes "neverThrows (Some callback)"
  shows "progressCalls (calls (importLoop inh submit (Some callback) k d m w n)) =
           map (\<lambda>c. (of_nat (fst c + 1) / of_nat (length (rows d))) * 100)
             (filter (\<lambda>c. \<not> isl (snd (snd c)))
                (submitCalls (calls (importLoop inh submit (Some callback) k d m w n))))"
proof (induction n)
  case 0
  show ?case by (simp add: importLoop_def)
next
  case (Suc n)
  let ?st = "importLoop inh submit (Some callback) k d m w n"
  let ?mapped = "mapRowData inh (rows d ! n) (headers d) m"
  let ?answer = "fst (submit (world ?st) k ?mapped)"
  note eff = importStep_effect[where inh = inh and progress = "Some callback" and d = d and i = n and m = m
      and submit = submit and st = ?st and k = k and n = "length (rows d)",
      OF assms refl refl refl]
  show ?case
    unfolding importLoop_Suc
    using Suc
    by (cases ?answer) (simp_all add: eff)
qed

text \<open>
  A progress callback that throws does so inside the \<open>try\<close> block, after the row was
  counted as imported: the \<open>catch\<close> block then counts the same row as failed.
\<close>

lemma throwing_callback_counts_row_twice:
  "result (performImport v8ObjectPrototype submitFailingOnSecond (Some throwingCallback) CAMPAIGNS
      \<lparr>headers = [''name''], rows = [[JSString ''a'']], totalRows = 1\<rparr> [] 0) =
     \<lparr>success = False, imported = 1, failed = 1, skipped = 0,
      import_errors = [\<lparr>ie_row = 1, ie_data = [JSString ''a''],
                        ie_error = ''callback failed''\<rparr>],
      createdRecords = [JSString ''id-1''], updatedRecords = []\<rparr>"
  by code_simp

text \<open>
  The mapped record when no header is the name of a member of \<open>Object.prototype\<close> and no
  target field is \<open>__proto__\<close>: the cells of the mapped headers under their target fields.
\<close>

lemma mapRowData_plain:
  assumes "\<forall>header \<in> set hdrs. inh header = None"
    and "''__proto__'' \<notin> snd ` set m"
  shows "mapRowData inh row hdrs m =
           fold (\<lambda>hi mapped.
                   (case map_of m (fst hi) of
                      Some targetField \<Rightarrow>
                        (if targetField \<noteq> []
                         then AList.update targetField (cellAt row (snd hi)) mapped
                         else mapped)
                    | None \<Rightarrow> mapped))
                (zip hdrs [0..<length hdrs]) []"
proof -
  let ?f = "\<lambda>hi mappedData.
              (case readMapping inh m (fst hi) of
                 Some targetField \<Rightarrow> assignProperty mappedData targetField (cellAt row (snd hi))
               | None \<Rightarrow> mappedData)"
  let ?g = "\<lambda>hi mapped.
              (case map_of m (fst hi) of
                 Some targetField \<Rightarrow>
                   (if targetField \<noteq> []
                    then AList.update targetField (cellAt row (snd hi)) mapped
                    else mapped)
               | None \<Rightarrow> mapped)"
  have step: "?f hi (own, b) = (?g hi own, b)" if "inh (fst hi) = None" for hi own b
  proof (cases "map_of m (fst hi)")
    case None
    with that show ?thesis by (simp add: readMapping_def)
  next
    case (Some targetField)
    then have "(fst hi, targetField) \<in> set m" by (rule map_of_SomeD)
    then have "targetField \<in> snd ` set m" by force
    with assms(2) have "targetField \<noteq> ''__proto__''" by blast
    with Some show ?thesis by (simp add: readMapping_def assignProperty_def)
  qed
  have "fold ?f xs (own, b) = (fold ?g xs own, b)"
    if "\<forall>hi \<in> set xs. inh (fst hi) = None" for xs own b
    using that
  proof (induction xs arbitrary: own)
    case Nil
    show ?case by simp
  next
    case (Cons x xs)
    then show ?case using step[of x own b] by simp
  qed
  moreover have "\<forall>hi \<in> set (zip hdrs [0..<length hdrs]). inh (fst hi) = None"
    using assms(1) by (auto dest: set_zip_leftD)
  ultimately show ?thesis by (simp add: mapRowData_def)
qed

text \<open>
  A header that is the name of a member of \<open>Object.prototype\<close> is mapped although the mapping
  has no entry for it, under the text of that member; a cell assigned to the target field
  \<open>__proto__\<close> is not a property of the mapped record, unless an earlier \<open>null\<close> under the same
  target field has cut the record off \<open>Object.prototype\<close>.
\<close>

lemma mapRowData_inherited_examples:
  "mapRowData v8ObjectPrototype [JSString ''a'', JSString ''b''] [''name'', ''constructor'']
     [(''name'', ''name'')] =
     [(''name'', JSString ''a''), (''function Object() { [native code] }'', JSString ''b'')]
   \<and> mapRowData v8ObjectPrototype [JSString ''a'', JSString ''b''] [''name'', ''parent'']
     [(''name'', ''name''), (''parent'', ''__proto__'')] = [(''name'', JSString ''a'')]
   \<and> mapRowData v8ObjectPrototype [JSNull, JSString ''b''] [''first'', ''second'']
     [(''first'', ''__proto__''), (''second'', ''__proto__'')] = [(''__proto__'', JSString ''b'')]"
  by code_simp

section \<open>Claims on the Import Orchestrator\<close>

text \<open>
  C1 (partial-failure import), as stated: \<open>imported\<close> equals the number of rows whose
  submission succeeded.  The code counts a row as imported only under the guard
  \<open>if (recordId)\<close>.  With three rows, of which the first succeeds with an id, the second
  fails and the third succeeds with the empty string as record id, two rows succeeded and
  one failed, and the result has \<open>imported = 1\<close> and \<open>failed = 1\<close>.
\<close>

theorem C1_counterexample:
  "outcomes (calls
      (performImport v8ObjectPrototype submitMixed None CAMPAIGNS threeRows [(''name'', ''name'')] 0)) =
     [Inr (JSString ''id-1''), Inl (ErrorObject ''Network Error''), Inr (JSString [])]
   \<and> length (resolvedIds (outcomes (calls
      (performImport v8ObjectPrototype submitMixed None CAMPAIGNS threeRows [(''name'', ''name'')] 0)))) = 2
   \<and> imported (result
      (performImport v8ObjectPrototype submitMixed None CAMPAIGNS threeRows [(''name'', ''name'')] 0)) = 1
   \<and> failed (result
      (performImport v8ObjectPrototype submitMixed None CAMPAIGNS threeRows [(''name'', ''name'')] 0)) = 1"
  by code_simp

text \<open>
  C1, amended: for every tabular data, mapping, import kind and submit function, and a
  progress callback that is absent or does not throw, \<open>performImport\<close> submits every row
  exactly once and in row order, whatever the earlier rows did, and what it submits for a
  row is the import kind and the mapped record of that row;
  \<open>imported\<close> is the number of rows whose submission resolved with a truthy record id, and
  \<open>createdRecords\<close> holds exactly these ids in row order; \<open>failed\<close> is the number of rows
  whose submission failed; \<open>success = (failed == 0)\<close>.  With three rows of which only the
  second fails: \<open>imported = 2\<close>, \<open>failed = 1\<close>, \<open>success = false\<close>.
\<close>

theorem C1_partial_failure_import:
  assumes "neverThrows progress"
  shows "map fst (submitCalls (calls (performImport inh submit progress k d m w)))
           = [0..<length (rows d)]
       \<and> map (\<lambda>c. fst (snd c)) (submitCalls (calls (performImport inh submit progress k d m w)))
           = map (\<lambda>i. mapRowData inh (rows d ! i) (headers d) m) [0..<length (rows d)]
       \<and> submitKinds (calls (performImport inh submit progress k d m w))
           = replicate (length (rows d)) k
       \<and> imported (result (performImport inh submit progress k d m w))
           = length (filter truthy
               (resolvedIds (outcomes (calls (performImport inh submit progress k d m w)))))
       \<and> createdRecords (result (performImport inh submit progress k d m w))
           = filter truthy
               (resolvedIds (outcomes (calls (performImport inh submit progress k d m w))))
       \<and> failed (result (performImport inh submit progress k d m w))
           = length (rejections (outcomes (calls (performImport inh submit progress k d m w))))
       \<and> success (result (performImport inh submit progress k d m w))
           = (failed (result (performImport inh submit progress k d m w)) = 0)"
  using importLoop_inv[OF assms, where inh = inh and submit = submit and k = k and d = d
          and m = m and w = w and n = "length (rows d)"]
  by (simp add: performImport_importLoop)

theorem C1_partial_failure_import_witness:
  "neverThrows (Some quietCallback)
   \<and> map fst (submitCalls (calls (performImport v8ObjectPrototype submitFailingOnSecond
        (Some quietCallback) CAMPAIGNS threeRows [(''name'', ''name'')] 0))) = [0, 1, 2]
   \<and> map (\<lambda>c. fst (snd c)) (submitCalls (calls (performImport v8ObjectPrototype
        submitFailingOnSecond (Some quietCallback) CAMPAIGNS threeRows [(''name'', ''name'')] 0)))
       = [[(''name'', JSString ''a'')], [(''name'', JSString ''b'')], [(''name'', JSString ''c'')]]
   \<and> submitKinds (calls (performImport v8ObjectPrototype submitFailingOnSecond
        (Some quietCallback) CAMPAIGNS threeRows [(''name'', ''name'')] 0))
       = [CAMPAIGNS, CAMPAIGNS, CAMPAIGNS]
   \<and> result (performImport v8ObjectPrototype submitFailingOnSecond (Some quietCallback)
        CAMPAIGNS threeRows [(''name'', ''name'')] 0) =
      \<lparr>success = False, imported = 2, failed = 1, skipped = 0,
       import_errors = [\<lparr>ie_row = 2, ie_data = [JSString ''b''],
                         ie_error = ''Network Error''\<rparr>],
       createdRecords = [JSString ''id-1'', JSString ''id-3''], updatedRecords = []\<rparr>"
proof -
  have q: "neverThrows (Some quietCallback)"
    by (simp add: neverThrows_def quietCallback_def)
  have r: "result (performImport v8ObjectPrototype submitFailingOnSecond (Some quietCallback)
        CAMPAIGNS threeRows [(''name'', ''name'')] 0) =
      \<lparr>success = False, imported = 2, failed = 1, skipped = 0,
       import_errors = [\<lparr>ie_row = 2, ie_data = [JSString ''b''],
                         ie_error = ''Network Error''\<rparr>],
       createdRecords = [JSString ''id-1'', JSString ''id-3''], updatedRecords = []\<rparr>"
    by code_simp
  have l: "[0..<length (rows threeRows)] = [0, 1, 2]"
    by code_simp
  have n: "replicate (length (rows threeRows)) CAMPAIGNS = [CAMPAIGNS, CAMPAIGNS, CAMPAIGNS]"
    by code_simp
  have m: "map (\<lambda>i. mapRowData v8ObjectPrototype (rows threeRows ! i) (headers threeRows)
                  [(''name'', ''name'')]) [0, 1, 2]
       = [[(''name'', JSString ''a'')], [(''name'', JSString ''b'')], [(''name'', JSString ''c'')]]"
    by code_simp
  from C1_partial_failure_import[OF q, where inh = v8ObjectPrototype
         and submit = submitFailingOnSecond and k = CAMPAIGNS and d = threeRows
         and m = "[(''name'', ''name'')]" and w = 0] q r l m n
  show ?thesis by simp
qed

text \<open>
  C4 (progress reporting).  The claim: the progress callback is invoked after every row,
  failing rows included, so \<open>N\<close> times for \<open>N\<close> rows, the \<open>k\<close>-th call with \<open>(k / N) * 100\<close>.
  The call of the callback stands inside the \<open>try\<close> block, after the submission, and is
  skipped when the submission throws (lemma \<open>importLoop_progress\<close>).  With three rows of which
  the second fails, the callback is invoked twice, with \<open>100 / 3\<close> and \<open>100\<close>; the report of
  \<open>200 / 3\<close> after the second row is missing.
\<close>

theorem C4_no_progress_after_failed_row:
  "length (rows threeRows) = 3
   \<and> calls (performImport v8ObjectPrototype submitFailingOnSecond (Some quietCallback) CAMPAIGNS threeRows
        [(''name'', ''name'')] 0) =
      [SubmitCall 0 CAMPAIGNS [(''name'', JSString ''a'')] (Inr (JSString ''id-1'')),
       ProgressCall (100 / 3) None,
       SubmitCall 1 CAMPAIGNS [(''name'', JSString ''b'')] (Inl (ErrorObject ''Network Error'')),
       SubmitCall 2 CAMPAIGNS [(''name'', JSString ''c'')] (Inr (JSString ''id-3'')),
       ProgressCall 100 None]
   \<and> progressCalls (calls (performImport v8ObjectPrototype submitFailingOnSecond (Some quietCallback) CAMPAIGNS
        threeRows [(''name'', ''name'')] 0)) = [100 / 3, 100]"
  by code_simp

text \<open>
  C10 (implicit: a resolved submission with a falsy record id is counted nowhere), as
  stated: a row whose submission resolves with a falsy record id is counted in none of
  \<open>imported\<close>, \<open>failed\<close> and \<open>skipped\<close> and adds no entry to the errors.  The progress callback
  is called after the guard \<open>if (recordId)\<close>, still inside the \<open>try\<close> block.  When it throws,
  the \<open>catch\<close> block counts the row as failed and records an error for it: with three rows
  whose submissions all resolve with the empty string and a callback that throws,
  \<open>failed = 3\<close>, the errors have three entries and \<open>success\<close> is false.
\<close>

theorem C10_counterexample:
  "outcomes (calls (performImport v8ObjectPrototype submitEmptyId (Some throwingCallback)
      KEYWORDS threeRows [] 0)) = [Inr (JSString []), Inr (JSString []), Inr (JSString [])]
   \<and> \<not> truthy (JSString [])
   \<and> result (performImport v8ObjectPrototype submitEmptyId (Some throwingCallback)
      KEYWORDS threeRows [] 0) =
       \<lparr>success = False, imported = 0, failed = 3, skipped = 0,
        import_errors =
          [\<lparr>ie_row = 1, ie_data = [JSString ''a''], ie_error = ''callback failed''\<rparr>,
           \<lparr>ie_row = 2, ie_data = [JSString ''b''], ie_error = ''callback failed''\<rparr>,
           \<lparr>ie_row = 3, ie_data = [JSString ''c''], ie_error = ''callback failed''\<rparr>],
        createdRecords = [], updatedRecords = []\<rparr>"
  by code_simp

text \<open>
  C10, amended: when the submission of a row resolves with a falsy record id (the empty
  string, \<open>null\<close>, \<open>undefined\<close>) and the progress callback is absent or does not throw, the
  iteration leaves the result as it was: \<open>imported\<close>, \<open>failed\<close>, \<open>skipped\<close>, \<open>createdRecords\<close>
  and the error list are unchanged.  So with three rows whose submissions all resolve with
  the empty string and no callback, \<open>imported + failed + skipped = 0\<close> is less than the
  number of rows, nothing is recorded, and \<open>success\<close> is true.
\<close>

theorem C10_falsy_record_id_not_counted:
  "(neverThrows progress \<and> i < length (rows d) \<and>
    fst (submit (world st) k (mapRowData inh (rows d ! i) (headers d) m)) = Inr recordId \<and>
    \<not> truthy recordId
    \<longrightarrow> result (importStep inh submit progress k d m n i st) = result st)
   \<and> \<not> truthy (JSString []) \<and> \<not> truthy JSNull \<and> \<not> truthy JSUndefined
   \<and> length (rows threeRows) = 3
   \<and> outcomes (calls (performImport v8ObjectPrototype submitEmptyId None KEYWORDS threeRows [] 0)) =
        [Inr (JSString []), Inr (JSString []), Inr (JSString [])]
   \<and> result (performImport v8ObjectPrototype submitEmptyId None KEYWORDS threeRows [] 0) =
        \<lparr>success = True, imported = 0, failed = 0, skipped = 0, import_errors = [],
         createdRecords = [], updatedRecords = []\<rparr>"
proof -
  have step: "neverThrows progress \<and> i < length (rows d) \<and>
    fst (submit (world st) k (mapRowData inh (rows d ! i) (headers d) m)) = Inr recordId \<and>
    \<not> truthy recordId
    \<longrightarrow> result (importStep inh submit progress k d m n i st) = result st"
    using importStep_effect(3)[where inh = inh and progress = progress and d = d and i = i
      and m = m and submit = submit and st = st and k = k and n = n, OF _ refl refl refl]
    by auto
  have run: "length (rows threeRows) = 3
   \<and> outcomes (calls (performImport v8ObjectPrototype submitEmptyId None KEYWORDS threeRows [] 0)) =
        [Inr (JSString []), Inr (JSString []), Inr (JSString [])]
   \<and> result (performImport v8ObjectPrototype submitEmptyId None KEYWORDS threeRows [] 0) =
        \<lparr>success = True, imported = 0, failed = 0, skipped = 0, import_errors = [],
         createdRecords = [], updatedRecords = []\<rparr>"
    by code_simp
  from step run show ?thesis by simp
qed

theorem C10_falsy_record_id_not_counted_witness:
  "neverThrows (Some quietCallback) \<and> 0 < length (rows threeRows)
   \<and> fst (submitEmptyId 0 BUDGETS (mapRowData v8ObjectPrototype [JSString ''a''] [''name''] []))
        = Inr (JSString [])
   \<and> \<not> truthy (JSString [])
   \<and> result (importStep v8ObjectPrototype submitEmptyId (Some quietCallback) BUDGETS threeRows
        [] 3 0 \<lparr>result = initialResult, world = 0, calls = []\<rparr>) = initialResult"
proof -
  have q: "neverThrows (Some quietCallback)"
    by (simp add: neverThrows_def quietCallback_def)
  have a: "fst (submitEmptyId 0 BUDGETS
             (mapRowData v8ObjectPrototype (rows threeRows ! 0) (headers threeRows) []))
            = Inr (JSString [])"
    by (simp add: submitEmptyId_def)
  from C10_falsy_record_id_not_counted[where progress = "Some quietCallback"
         and inh = v8ObjectPrototype and submit = submitEmptyId
         and st = "\<lparr>result = initialResult, world = 0, calls = []\<rparr>"
         and k = BUDGETS and d = threeRows and i = 0 and m = "[]"
         and recordId = "JSString []" and n = 3] q a
  show ?thesis by (simp add: submitEmptyId_def threeRows_def)
qed

end
